theory Spec2Isabelle
  imports Complex_Main
begin

section \<open>Data model (src/types/order.types.ts)\<close>

text \<open>
  The enumerations of \<^verbatim>\<open>order.types.ts\<close>. The TypeScript enum values are lower-case
  strings and the database enum values the same words in upper case; \<^verbatim>\<open>toUpperCase()\<close>
  maps one onto the other, so both are one datatype here.
\<close>

datatype OrderStatus = PENDING | ROUTING | BUILDING | SUBMITTED | CONFIRMED | FAILED

datatype DexType = RAYDIUM | METEORA

text \<open>
  A JavaScript \<^verbatim>\<open>number\<close> is modelled as a real: IEEE rounding is outside the model.
  A \<^verbatim>\<open>Date\<close> is its millisecond timestamp. The text of an \<^verbatim>\<open>Error\<close> is either a
  fixed string or the template of \<^verbatim>\<open>buildTransaction\<close>, kept with its two numbers.
\<close>

datatype message = Msg string | PriceImpactExceeds real real

datatype error = Error message

fun error_message :: "error \<Rightarrow> message" where
  "error_message (Error m) = m"

text \<open>JavaScript truthiness of the optional values that \<^verbatim>\<open>updateOrderStatus\<close> tests.\<close>

fun truthy_number :: "real option \<Rightarrow> bool" where
  "truthy_number None = False"
| "truthy_number (Some x) = (x \<noteq> 0)"

fun truthy_string :: "string option \<Rightarrow> bool" where
  "truthy_string None = False"
| "truthy_string (Some s) = (s \<noteq> [])"

fun truthy_message :: "message option \<Rightarrow> bool" where
  "truthy_message None = False"
| "truthy_message (Some (Msg s)) = (s \<noteq> [])"
| "truthy_message (Some (PriceImpactExceeds x y)) = True"

record Order =
  order_id :: string
  order_type :: string
  status :: OrderStatus
  fromToken :: string
  toToken :: string
  amount :: real
  selectedDex :: "DexType option"
  raydiumPrice :: "real option"
  meteoraPrice :: "real option"
  executionPrice :: "real option"
  txHash :: "string option"
  slippageTolerance :: real
  retryCount :: nat
  failureReason :: "message option"
  createdAt :: nat
  updatedAt :: nat
  completedAt :: "nat option"

record DexQuote =
  dex :: DexType
  price :: real
  outputAmount :: real
  priceImpact :: real
  timestamp :: nat

text \<open>The optional \<^verbatim>\<open>data\<close> object of an \<^verbatim>\<open>OrderStatusUpdate\<close>.\<close>

record UpdateData =
  d_selectedDex :: "DexType option"
  d_raydiumPrice :: "real option"
  d_meteoraPrice :: "real option"
  d_executionPrice :: "real option"
  d_txHash :: "string option"
  d_error :: "message option"

record OrderStatusUpdate =
  u_orderId :: string
  u_status :: OrderStatus
  u_message :: string
  u_data :: "UpdateData option"
  u_timestamp :: nat

section \<open>Quote router (DexRouterService)\<close>

text \<open>
  A method that writes to the logger returns its value together with the lines it logged:
  the level and the text of each call.
\<close>

datatype level = Info | Warn | Err | Debug

type_synonym log_entry = "level \<times> string"

text \<open>
  \<^verbatim>\<open>selectBestDex\<close>: the ternary on \<^verbatim>\<open>outputAmount\<close>, then one info line.
\<close>

definition selectBestDex :: "DexQuote \<Rightarrow> DexQuote \<Rightarrow> DexQuote \<times> log_entry list" where
  "selectBestDex raydiumQuote meteoraQuote =
     (let selectedQuote =
        (if outputAmount raydiumQuote > outputAmount meteoraQuote
         then raydiumQuote else meteoraQuote)
      in (selectedQuote, [(Info, ''Selected best DEX for execution'')]))"

text \<open>
  The arithmetic of \<^verbatim>\<open>validateQuotes\<close> is that of IEEE doubles. A value is a finite
  double (\<open>Finite 0\<close> is the positive zero), the negative zero, an infinity or NaN. The
  exact result of an operation on finite operands, when it is not zero, is rounded by the
  runtime; the rounding \<open>fl\<close> is a parameter: it returns the nearest double, a zero on
  underflow or an infinity on overflow. The results on zeros, infinities and NaN follow
  the IEEE rules. A price is a finite double (a price of zero is the positive zero).
\<close>

datatype jsnum = Finite real | NegZero | PosInfinity | NegInfinity | NaN

fun js_value :: "jsnum \<Rightarrow> real" where
  "js_value (Finite x) = x"
| "js_value NegZero = 0"
| "js_value PosInfinity = 0"
| "js_value NegInfinity = 0"
| "js_value NaN = 0"

definition is_infinite :: "jsnum \<Rightarrow> bool" where
  "is_infinite x = (x = PosInfinity \<or> x = NegInfinity)"

definition is_zero :: "jsnum \<Rightarrow> bool" where
  "is_zero x = (x = Finite 0 \<or> x = NegZero)"

fun negative :: "jsnum \<Rightarrow> bool" where
  "negative (Finite x) = (x < 0)"
| "negative NegZero = True"
| "negative PosInfinity = False"
| "negative NegInfinity = True"
| "negative NaN = False"

definition signed_zero :: "bool \<Rightarrow> jsnum" where
  "signed_zero neg = (if neg then NegZero else Finite 0)"

definition signed_infinity :: "bool \<Rightarrow> jsnum" where
  "signed_infinity neg = (if neg then NegInfinity else PosInfinity)"

fun js_neg :: "jsnum \<Rightarrow> jsnum" where
  "js_neg (Finite x) = (if x = 0 then NegZero else Finite (- x))"
| "js_neg NegZero = Finite 0"
| "js_neg PosInfinity = NegInfinity"
| "js_neg NegInfinity = PosInfinity"
| "js_neg NaN = NaN"

text \<open>\<^verbatim>\<open>Math.abs\<close>.\<close>

fun js_abs :: "jsnum \<Rightarrow> jsnum" where
  "js_abs (Finite x) = Finite \<bar>x\<bar>"
| "js_abs NegZero = Finite 0"
| "js_abs PosInfinity = PosInfinity"
| "js_abs NegInfinity = PosInfinity"
| "js_abs NaN = NaN"

text \<open>
  \<^verbatim>\<open>x + y\<close>: opposite infinities give NaN; an exact sum of zero is the positive zero
  unless both operands are the negative zero.
\<close>

definition js_add :: "(real \<Rightarrow> jsnum) \<Rightarrow> jsnum \<Rightarrow> jsnum \<Rightarrow> jsnum" where
  "js_add fl x y =
     (if x = NaN \<or> y = NaN then NaN
      else if is_infinite x \<or> is_infinite y then
        (if is_infinite x \<and> is_infinite y \<and> x \<noteq> y then NaN
         else if x = PosInfinity \<or> y = PosInfinity then PosInfinity else NegInfinity)
      else if js_value x + js_value y = 0 then
        (if x = NegZero \<and> y = NegZero then NegZero else Finite 0)
      else fl (js_value x + js_value y))"

text \<open>\<^verbatim>\<open>x - y\<close> is \<^verbatim>\<open>x + (-y)\<close>.\<close>

definition js_sub :: "(real \<Rightarrow> jsnum) \<Rightarrow> jsnum \<Rightarrow> jsnum \<Rightarrow> jsnum" where
  "js_sub fl x y = js_add fl x (js_neg y)"

text \<open>
  \<^verbatim>\<open>x / y\<close>: infinity by infinity and zero by zero give NaN, a finite value by an
  infinity a zero, a value other than zero by a zero an infinity, each with the sign of
  the operands' signs.
\<close>

definition js_div :: "(real \<Rightarrow> jsnum) \<Rightarrow> jsnum \<Rightarrow> jsnum \<Rightarrow> jsnum" where
  "js_div fl x y =
     (if x = NaN \<or> y = NaN then NaN
      else if is_infinite x then
        (if is_infinite y then NaN else signed_infinity (negative x \<noteq> negative y))
      else if is_infinite y then signed_zero (negative x \<noteq> negative y)
      else if is_zero y then
        (if is_zero x then NaN else signed_infinity (negative x \<noteq> negative y))
      else if is_zero x then signed_zero (negative x \<noteq> negative y)
      else fl (js_value x / js_value y))"

text \<open>\<^verbatim>\<open>x * y\<close>: an infinity times a zero gives NaN.\<close>

definition js_times :: "(real \<Rightarrow> jsnum) \<Rightarrow> jsnum \<Rightarrow> jsnum \<Rightarrow> jsnum" where
  "js_times fl x y =
     (if x = NaN \<or> y = NaN then NaN
      else if is_infinite x \<or> is_infinite y then
        (if is_zero x \<or> is_zero y then NaN else signed_infinity (negative x \<noteq> negative y))
      else if is_zero x \<or> is_zero y then signed_zero (negative x \<noteq> negative y)
      else fl (js_value x * js_value y))"

text \<open>\<^verbatim>\<open>x > c\<close> for a finite constant \<open>c\<close>: false on NaN.\<close>

fun js_gt :: "jsnum \<Rightarrow> real \<Rightarrow> bool" where
  "js_gt (Finite x) c = (x > c)"
| "js_gt NegZero c = (0 > c)"
| "js_gt PosInfinity c = True"
| "js_gt NegInfinity c = False"
| "js_gt NaN c = False"

definition percentageDiff :: "(real \<Rightarrow> jsnum) \<Rightarrow> DexQuote \<Rightarrow> DexQuote \<Rightarrow> jsnum" where
  "percentageDiff fl raydiumQuote meteoraQuote =
     (let priceDifference =
            js_abs (js_sub fl (Finite (price raydiumQuote)) (Finite (price meteoraQuote)));
          avgPrice =
            js_div fl (js_add fl (Finite (price raydiumQuote)) (Finite (price meteoraQuote)))
              (Finite 2)
      in js_times fl (js_div fl priceDifference avgPrice) (Finite 100))"

definition validateQuotes ::
  "(real \<Rightarrow> jsnum) \<Rightarrow> DexQuote \<Rightarrow> DexQuote \<Rightarrow> bool \<times> log_entry list" where
  "validateQuotes fl raydiumQuote meteoraQuote =
     (True,
      if js_gt (percentageDiff fl raydiumQuote meteoraQuote) 10
      then [(Warn, ''Large price difference detected between DEXs'')] else [])"

text \<open>The warning-level lines among the logged ones.\<close>

definition warnings :: "log_entry list \<Rightarrow> log_entry list" where
  "warnings ls = filter (\<lambda>l. fst l = Warn) ls"

text \<open>
  What is known of the rounding of doubles and used below: it is monotone, and it is
  exact on every \<open>n / 2 ^ k\<close> with an integer \<open>n\<close> of at most 53 bits and \<open>k\<close> up to
  1022, which are doubles. \<open>js_le\<close> is the order of the values, false on NaN.
\<close>

definition js_le :: "jsnum \<Rightarrow> jsnum \<Rightarrow> bool" where
  "js_le x y =
     (x \<noteq> NaN \<and> y \<noteq> NaN
      \<and> (x = NegInfinity \<or> y = PosInfinity
           \<or> (\<not> is_infinite x \<and> \<not> is_infinite y \<and> js_value x \<le> js_value y)))"

definition rounds_like_double :: "(real \<Rightarrow> jsnum) \<Rightarrow> bool" where
  "rounds_like_double fl =
     ((\<forall>x y. x \<le> y \<longrightarrow> js_le (fl x) (fl y))
      \<and> (\<forall>(n::int) (k::nat). \<bar>n\<bar> \<le> 2 ^ 53 \<and> k \<le> 1022 \<longrightarrow>
            fl (of_int n / 2 ^ k) = Finite (of_int n / 2 ^ k)))"

text \<open>
  A sample rounding for the examples: exact on every value of magnitude below \<open>2 ^ 1024\<close>
  and an infinity from there on, where doubles overflow.
\<close>

definition round_within_range :: "real \<Rightarrow> jsnum" where
  "round_within_range x = (if 2 ^ 1024 \<le> \<bar>x\<bar> then signed_infinity (x < 0) else Finite x)"

text \<open>A quote of a venue at a price, for an input amount of 10.\<close>

definition quoteAt :: "DexType \<Rightarrow> real \<Rightarrow> DexQuote" where
  "quoteAt venue p =
     \<lparr>dex = venue, price = p, outputAmount = 10 * p, priceImpact = 1 / 100, timestamp = 0\<rparr>"

section \<open>Order store (OrderService)\<close>

text \<open>The optional third argument of \<^verbatim>\<open>updateOrderStatus\<close>.\<close>

record StatusData =
  sd_selectedDex :: "DexType option"
  sd_raydiumPrice :: "real option"
  sd_meteoraPrice :: "real option"
  sd_executionPrice :: "real option"
  sd_txHash :: "string option"
  sd_failureReason :: "message option"

text \<open>
  The effects of the pipeline on its collaborators, in the order in which they happen: a
  status update written to the order's row, a status event handed to
  \<^verbatim>\<open>emitStatusUpdate\<close>, an increment of the retry counter written to the row, and a wait.
  Calls of the logger are not recorded.
\<close>

datatype effect =
    Persisted string OrderStatus "StatusData option"
  | Published OrderStatusUpdate
  | RetryIncremented string
  | Delayed nat

text \<open>
  The order table of the database is a map from the primary key to the row, the Redis
  cache a map from its key to the cached order (the expiry of a cache entry is not
  modelled). Every call of the database client or of the Redis client is a call to the
  outside and may be rejected: \<open>io_faults n\<close> says whether the call number \<open>n\<close> is, and
  \<open>io_count\<close> counts the calls made. The store also carries the list of the effects.
\<close>

record store =
  db :: "string \<rightharpoonup> Order"
  cache :: "string \<rightharpoonup> Order"
  io_faults :: "nat \<Rightarrow> bool"
  io_count :: nat
  effects :: "effect list"

text \<open>No call to the outside is rejected.\<close>

definition reliable :: "'a store_scheme \<Rightarrow> bool" where
  "reliable s = (\<forall>n. \<not> io_faults s n)"

text \<open>
  A step is a function from the state to a result and the state after it; \<open>Inl\<close> is a
  thrown error (a rejected promise). \<open>andThen\<close> is the sequencing of two awaited
  statements: a throw skips what follows. \<open>succeed\<close> is a \<^verbatim>\<open>return\<close>.
\<close>

definition andThen ::
  "('s \<Rightarrow> (error + 'a) \<times> 's) \<Rightarrow> ('a \<Rightarrow> 's \<Rightarrow> (error + 'b) \<times> 's)
     \<Rightarrow> 's \<Rightarrow> (error + 'b) \<times> 's" where
  "andThen m f s = (case m s of (Inl e, s') \<Rightarrow> (Inl e, s') | (Inr a, s') \<Rightarrow> f a s')"

definition succeed :: "'a \<Rightarrow> 's \<Rightarrow> (error + 'a) \<times> 's" where
  "succeed a s = (Inr a, s)"

text \<open>The object \<^verbatim>\<open>updateData\<close>: a column is \<open>None\<close> when the object has no such key.\<close>

record PrismaData =
  p_status :: "OrderStatus option"
  p_updatedAt :: "nat option"
  p_completedAt :: "nat option"
  p_selectedDex :: "DexType option"
  p_raydiumPrice :: "real option"
  p_meteoraPrice :: "real option"
  p_executionPrice :: "real option"
  p_txHash :: "string option"
  p_failureReason :: "message option"

definition set_column :: "'a option \<Rightarrow> 'a \<Rightarrow> 'a" where
  "set_column new old = (case new of None \<Rightarrow> old | Some v \<Rightarrow> v)"

definition set_nullable :: "'a option \<Rightarrow> 'a option \<Rightarrow> 'a option" where
  "set_nullable new old = (case new of None \<Rightarrow> old | Some v \<Rightarrow> Some v)"

definition apply_data :: "PrismaData \<Rightarrow> Order \<Rightarrow> Order" where
  "apply_data u ord =
     ord\<lparr>status := set_column (p_status u) (status ord),
         updatedAt := set_column (p_updatedAt u) (updatedAt ord),
         completedAt := set_nullable (p_completedAt u) (completedAt ord),
         selectedDex := set_nullable (p_selectedDex u) (selectedDex ord),
         raydiumPrice := set_nullable (p_raydiumPrice u) (raydiumPrice ord),
         meteoraPrice := set_nullable (p_meteoraPrice u) (meteoraPrice ord),
         executionPrice := set_nullable (p_executionPrice u) (executionPrice ord),
         txHash := set_nullable (p_txHash u) (txHash ord),
         failureReason := set_nullable (p_failureReason u) (failureReason ord)\<rparr>"

definition record_not_found :: error where
  "record_not_found = Error (Msg ''Record to update not found.'')"

definition database_error :: error where
  "database_error = Error (Msg ''Can't reach database server'')"

definition redis_error :: error where
  "redis_error = Error (Msg ''Connection is closed.'')"

text \<open>
  The awaited \<^verbatim>\<open>prisma.order.update\<close>: one call to the outside. When it is not rejected
  and the table has a row of the key, the row is replaced by \<open>f row\<close>, which is returned,
  and the write is recorded as the effect \<open>written\<close>; when no row has the key the call
  rejects and nothing is written.
\<close>

definition prisma_order_update ::
  "string \<Rightarrow> (Order \<Rightarrow> Order) \<Rightarrow> effect \<Rightarrow> 'a store_scheme \<Rightarrow> (error + Order) \<times> 'a store_scheme" where
  "prisma_order_update key f written s =
     (if io_faults s (io_count s) then (Inl database_error, s\<lparr>io_count := io_count s + 1\<rparr>)
      else case db s key of
             None \<Rightarrow> (Inl record_not_found, s\<lparr>io_count := io_count s + 1\<rparr>)
           | Some row \<Rightarrow>
               (Inr (f row),
                s\<lparr>db := (db s)(key \<mapsto> f row), io_count := io_count s + 1,
                  effects := effects s @ [written]\<rparr>))"

text \<open>\<^verbatim>\<open>cacheOrder\<close>: the awaited \<^verbatim>\<open>redis.set\<close>, one call to the outside.\<close>

definition cacheOrder :: "Order \<Rightarrow> 'a store_scheme \<Rightarrow> (error + unit) \<times> 'a store_scheme" where
  "cacheOrder ord s =
     (if io_faults s (io_count s) then (Inl redis_error, s\<lparr>io_count := io_count s + 1\<rparr>)
      else (Inr (),
            s\<lparr>cache := (cache s)(''order:'' @ order_id ord \<mapsto> ord),
              io_count := io_count s + 1\<rparr>))"

text \<open>
  \<^verbatim>\<open>updateOrderStatus\<close> builds \<^verbatim>\<open>updateData\<close>: the status and \<^verbatim>\<open>updatedAt\<close> always,
  \<^verbatim>\<open>completedAt\<close> for a terminal status, and each field of \<^verbatim>\<open>data\<close> that is truthy.
  \<open>now\<close> is the value of \<^verbatim>\<open>new Date()\<close>. Then it awaits the update of the row, and after
  it the write to the cache.
\<close>

definition updateData :: "OrderStatus \<Rightarrow> StatusData option \<Rightarrow> nat \<Rightarrow> PrismaData" where
  "updateData st data now =
     (let u0 = \<lparr>p_status = Some st, p_updatedAt = Some now, p_completedAt = None,
                p_selectedDex = None, p_raydiumPrice = None, p_meteoraPrice = None,
                p_executionPrice = None, p_txHash = None, p_failureReason = None\<rparr>;
          u1 = (if st = CONFIRMED \<or> st = FAILED then u0\<lparr>p_completedAt := Some now\<rparr> else u0)
      in case data of
           None \<Rightarrow> u1
         | Some d \<Rightarrow>
            (let u2 = (if sd_selectedDex d \<noteq> None then u1\<lparr>p_selectedDex := sd_selectedDex d\<rparr> else u1);
                 u3 = (if truthy_number (sd_raydiumPrice d)
                       then u2\<lparr>p_raydiumPrice := sd_raydiumPrice d\<rparr> else u2);
                 u4 = (if truthy_number (sd_meteoraPrice d)
                       then u3\<lparr>p_meteoraPrice := sd_meteoraPrice d\<rparr> else u3);
                 u5 = (if truthy_number (sd_executionPrice d)
                       then u4\<lparr>p_executionPrice := sd_executionPrice d\<rparr> else u4);
                 u6 = (if truthy_string (sd_txHash d) then u5\<lparr>p_txHash := sd_txHash d\<rparr> else u5)
             in if truthy_message (sd_failureReason d)
                then u6\<lparr>p_failureReason := sd_failureReason d\<rparr> else u6))"

definition updateOrderStatus ::
  "string \<Rightarrow> OrderStatus \<Rightarrow> StatusData option \<Rightarrow> nat \<Rightarrow> 'a store_scheme
     \<Rightarrow> (error + Order) \<times> 'a store_scheme" where
  "updateOrderStatus orderId st data now =
     andThen (prisma_order_update orderId (apply_data (updateData st data now))
                (Persisted orderId st data)) (\<lambda>ord.
     andThen (cacheOrder ord) (\<lambda>_.
     succeed ord))"

text \<open>
  \<^verbatim>\<open>incrementRetryCount\<close>: one update of the row, without a write to the cache. The
  column \<^verbatim>\<open>updatedAt\<close> is stamped by the database client on every update.
\<close>

definition incrementRetryCount ::
  "string \<Rightarrow> nat \<Rightarrow> 'a store_scheme \<Rightarrow> (error + nat) \<times> 'a store_scheme" where
  "incrementRetryCount orderId now =
     andThen (prisma_order_update orderId
                (\<lambda>row. row\<lparr>retryCount := retryCount row + 1, updatedAt := now\<rparr>)
                (RetryIncremented orderId)) (\<lambda>ord.
     succeed (retryCount ord))"

text \<open>The store argument with every optional field absent.\<close>

definition no_data :: StatusData where
  "no_data = \<lparr>sd_selectedDex = None, sd_raydiumPrice = None, sd_meteoraPrice = None,
              sd_executionPrice = None, sd_txHash = None, sd_failureReason = None\<rparr>"

section \<open>Execution orchestrator (OrderExecutionService)\<close>

text \<open>The world the orchestrator runs in: the order store and a clock.\<close>

record world = store +
  clock :: nat

record config =
  maxRetries :: nat
  mockExecutionDelay :: nat

text \<open>The defaults of \<^verbatim>\<open>config/index.ts\<close>.\<close>

definition default_config :: config where
  "default_config = \<lparr>maxRetries = 3, mockExecutionDelay = 2500\<rparr>"

text \<open>
  What the outside answers during one attempt: the outcome of \<^verbatim>\<open>getQuotes\<close> (the mock
  draws its prices at random; a real venue may fail), the value of \<^verbatim>\<open>Math.random()\<close> in
  \<^verbatim>\<open>submitTransaction\<close>, the identifier \<^verbatim>\<open>randomUUID()\<close> returns there, and the rounding
  of the runtime's arithmetic.
\<close>

record attempt_env =
  getQuotes_result :: "error + DexQuote \<times> DexQuote"
  submit_random :: real
  submit_uuid :: string
  round_double :: "real \<Rightarrow> jsnum"

record Transaction =
  t_dex :: DexType
  t_fromToken :: string
  t_toToken :: string
  t_amount :: real
  t_expectedOutput :: real
  t_slippage :: real
  t_timestamp :: nat

text \<open>
  \<open>persist\<close> is the awaited call of \<^verbatim>\<open>orderService.updateOrderStatus\<close> at the current time.
  \<open>emitStatusUpdate\<close> is the method as the server wires it at start: it builds the
  \<^verbatim>\<open>OrderStatusUpdate\<close> with the current time and hands it to the broadcaster, which
  returns normally (see \<open>broadcastStatusUpdate\<close> below); here the update is recorded in
  the effects.
\<close>

definition persist ::
  "string \<Rightarrow> OrderStatus \<Rightarrow> StatusData option \<Rightarrow> world \<Rightarrow> (error + Order) \<times> world" where
  "persist orderId st data w = updateOrderStatus orderId st data (clock w) w"

definition emitStatusUpdate ::
  "string \<Rightarrow> OrderStatus \<Rightarrow> string \<Rightarrow> UpdateData option \<Rightarrow> world \<Rightarrow> (error + unit) \<times> world" where
  "emitStatusUpdate orderId st msg data w =
     (Inr (), w\<lparr>effects := effects w @
        [Published \<lparr>u_orderId = orderId, u_status = st, u_message = msg, u_data = data,
                    u_timestamp = clock w\<rparr>]\<rparr>)"

definition delay :: "nat \<Rightarrow> world \<Rightarrow> (error + unit) \<times> world" where
  "delay ms w = (Inr (), w\<lparr>effects := effects w @ [Delayed ms], clock := clock w + ms\<rparr>)"

definition getQuotes :: "attempt_env \<Rightarrow> world \<Rightarrow> (error + DexQuote \<times> DexQuote) \<times> world" where
  "getQuotes e w = (getQuotes_result e, w)"

definition buildTransaction :: "Order \<Rightarrow> DexQuote \<Rightarrow> world \<Rightarrow> (error + Transaction) \<times> world" where
  "buildTransaction order quote =
     andThen (delay 500) (\<lambda>_ w.
       let maxSlippage = slippageTolerance order in
       if priceImpact quote > maxSlippage
       then (Inl (Error (PriceImpactExceeds (priceImpact quote) maxSlippage)), w)
       else (Inr \<lparr>t_dex = dex quote, t_fromToken = fromToken order, t_toToken = toToken order,
                  t_amount = amount order, t_expectedOutput = outputAmount quote,
                  t_slippage = maxSlippage, t_timestamp = clock w\<rparr>, w))"

definition network_error :: error where
  "network_error = Error (Msg ''Network error: Transaction failed to submit'')"

definition submitTransaction ::
  "config \<Rightarrow> attempt_env \<Rightarrow> Transaction \<Rightarrow> Order \<Rightarrow> DexQuote \<Rightarrow> world \<Rightarrow> (error + string) \<times> world" where
  "submitTransaction cfg e transaction order quote =
     andThen (delay (mockExecutionDelay cfg)) (\<lambda>_ w.
       if submit_random e < 5 / 100 then (Inl network_error, w)
       else (Inr (filter (\<lambda>c. c \<noteq> CHR ''-'') (submit_uuid e)), w))"

definition no_update_data :: UpdateData where
  "no_update_data = \<lparr>d_selectedDex = None, d_raydiumPrice = None, d_meteoraPrice = None,
                     d_executionPrice = None, d_txHash = None, d_error = None\<rparr>"

text \<open>The body of the \<^verbatim>\<open>try\<close> block of \<^verbatim>\<open>executeMarketOrder\<close>, statement by statement.\<close>

definition executeMarketOrder_try ::
  "config \<Rightarrow> attempt_env \<Rightarrow> Order \<Rightarrow> world \<Rightarrow> (error + unit) \<times> world" where
  "executeMarketOrder_try cfg e order =
     (let orderId = order_id order in
      andThen (persist orderId ROUTING None) (\<lambda>_.
      andThen (emitStatusUpdate orderId ROUTING ''Comparing DEX prices'' None) (\<lambda>_.
      andThen (getQuotes e) (\<lambda>(raydium, meteora).
      let valid = validateQuotes (round_double e) raydium meteora;
          bestQuote = fst (selectBestDex raydium meteora) in
      andThen (persist orderId ROUTING
                 (Some (no_data\<lparr>sd_raydiumPrice := Some (price raydium),
                                sd_meteoraPrice := Some (price meteora),
                                sd_selectedDex := Some (dex bestQuote)\<rparr>))) (\<lambda>_.
      andThen (emitStatusUpdate orderId ROUTING ''Best DEX selected''
                 (Some (no_update_data\<lparr>d_selectedDex := Some (dex bestQuote),
                                        d_raydiumPrice := Some (price raydium),
                                        d_meteoraPrice := Some (price meteora)\<rparr>))) (\<lambda>_.
      andThen (persist orderId BUILDING None) (\<lambda>_.
      andThen (emitStatusUpdate orderId BUILDING ''Creating transaction'' None) (\<lambda>_.
      andThen (buildTransaction order bestQuote) (\<lambda>transaction.
      andThen (persist orderId SUBMITTED None) (\<lambda>_.
      andThen (emitStatusUpdate orderId SUBMITTED ''Transaction sent to network'' None) (\<lambda>_.
      andThen (submitTransaction cfg e transaction order bestQuote) (\<lambda>hash.
      andThen (persist orderId CONFIRMED
                 (Some (no_data\<lparr>sd_txHash := Some hash,
                                sd_executionPrice := Some (price bestQuote)\<rparr>))) (\<lambda>_.
      emitStatusUpdate orderId CONFIRMED ''Transaction successful''
        (Some (no_update_data\<lparr>d_txHash := Some hash,
                               d_executionPrice := Some (price bestQuote)\<rparr>)))))))))))))))"

definition incrementRetryCount_step :: "string \<Rightarrow> world \<Rightarrow> (error + nat) \<times> world" where
  "incrementRetryCount_step orderId w = incrementRetryCount orderId (clock w) w"

text \<open>
  \<^verbatim>\<open>executeMarketOrder\<close>: the \<^verbatim>\<open>try\<close> block, and in the \<^verbatim>\<open>catch\<close> block either the
  increment, the wait and the recursive call, or the update to \<^verbatim>\<open>FAILED\<close> and its event.
  An error thrown inside the \<^verbatim>\<open>catch\<close> block leaves the function. \<open>env n\<close> is what the
  outside answers during the attempt with \<^verbatim>\<open>retryAttempt = n\<close>.
\<close>

function executeMarketOrder ::
  "config \<Rightarrow> (nat \<Rightarrow> attempt_env) \<Rightarrow> Order \<Rightarrow> nat \<Rightarrow> world \<Rightarrow> (error + unit) \<times> world" where
  "executeMarketOrder cfg env order retryAttempt w =
     (case executeMarketOrder_try cfg (env retryAttempt) order w of
        (Inr u, w1) \<Rightarrow> (Inr (), w1)
      | (Inl err, w1) \<Rightarrow>
          if retryAttempt < maxRetries cfg then
            (case incrementRetryCount_step (order_id order) w1 of
               (Inl err', w2) \<Rightarrow> (Inl err', w2)
             | (Inr n, w2) \<Rightarrow>
                 (case delay (2 ^ retryAttempt * 1000) w2 of
                    (Inl err', w3) \<Rightarrow> (Inl err', w3)
                  | (Inr u, w3) \<Rightarrow> executeMarketOrder cfg env order (retryAttempt + 1) w3))
          else
            andThen (persist (order_id order) FAILED
                       (Some (no_data\<lparr>sd_failureReason := Some (error_message err)\<rparr>))) (\<lambda>_.
              emitStatusUpdate (order_id order) FAILED ''Order execution failed''
                (Some (no_update_data\<lparr>d_error := Some (error_message err)\<rparr>))) w1)"
  by pat_completeness auto
termination
  by (relation "measure (\<lambda>(cfg, env, order, retryAttempt, w). maxRetries cfg - retryAttempt)") auto

declare executeMarketOrder.simps [simp del]

text \<open>
  The statuses written to the row of one order, in the order of the writes, and the
  statuses of the events published for it.
\<close>

fun persisted_statuses :: "string \<Rightarrow> effect list \<Rightarrow> OrderStatus list" where
  "persisted_statuses orderId [] = []"
| "persisted_statuses orderId (Persisted k st d # es) =
     (if k = orderId then st # persisted_statuses orderId es else persisted_statuses orderId es)"
| "persisted_statuses orderId (x # es) = persisted_statuses orderId es"

fun published_statuses :: "string \<Rightarrow> effect list \<Rightarrow> OrderStatus list" where
  "published_statuses orderId [] = []"
| "published_statuses orderId (Published u # es) =
     (if u_orderId u = orderId then u_status u # published_statuses orderId es
      else published_statuses orderId es)"
| "published_statuses orderId (x # es) = published_statuses orderId es"


text \<open>
  Every status update written is followed at once by the event of the same order and
  status, and no event stands without its update before it.
\<close>

fun persist_then_publish :: "effect list \<Rightarrow> bool" where
  "persist_then_publish [] = True"
| "persist_then_publish (Persisted k st d # Published u # es) =
     (u_orderId u = k \<and> u_status u = st \<and> persist_then_publish es)"
| "persist_then_publish (Persisted k st d # es) = False"
| "persist_then_publish (Published u # es) = False"
| "persist_then_publish (x # es) = persist_then_publish es"

definition is_terminal :: "OrderStatus \<Rightarrow> bool" where
  "is_terminal st = (st = CONFIRMED \<or> st = FAILED)"

text \<open>
  The statuses one attempt persists: all five when it succeeds, and when it fails the
  ones before the failing call (the quote fetch, the slippage check of
  \<^verbatim>\<open>buildTransaction\<close>, or the submission).
\<close>

definition complete_attempt :: "OrderStatus list" where
  "complete_attempt = [ROUTING, ROUTING, BUILDING, SUBMITTED, CONFIRMED]"

definition failed_attempt :: "OrderStatus list \<Rightarrow> bool" where
  "failed_attempt a =
     (a = [ROUTING] \<or> a = [ROUTING, ROUTING, BUILDING]
      \<or> a = [ROUTING, ROUTING, BUILDING, SUBMITTED])"

text \<open>
  The status sequences of a run that may still retry \<open>k\<close> times: failed attempts, each
  followed by a retry, then either a complete attempt or, with no retry left, a failed
  attempt followed by \<^verbatim>\<open>FAILED\<close>.
\<close>

inductive run_statuses :: "nat \<Rightarrow> OrderStatus list \<Rightarrow> bool" where
  complete: "run_statuses k complete_attempt"
| exhausted: "failed_attempt a \<Longrightarrow> run_statuses 0 (a @ [FAILED])"
| retry: "failed_attempt a \<Longrightarrow> run_statuses k xs \<Longrightarrow> run_statuses (Suc k) (a @ xs)"

text \<open>
  The outcome of an attempt as the answers of the outside decide it, for an order whose
  row the store has: the error of the quote fetch, of the slippage check or of the
  submission, or success.
\<close>

definition attempt_outcome :: "attempt_env \<Rightarrow> Order \<Rightarrow> error + unit" where
  "attempt_outcome e order =
     (case getQuotes_result e of
        Inl err \<Rightarrow> Inl err
      | Inr (raydium, meteora) \<Rightarrow>
          (let bestQuote = fst (selectBestDex raydium meteora) in
           if priceImpact bestQuote > slippageTolerance order
           then Inl (Error (PriceImpactExceeds (priceImpact bestQuote) (slippageTolerance order)))
           else if submit_random e < 5 / 100 then Inl network_error
           else Inr ()))"

text \<open>
  How a run closes: its last two effects are the update to a terminal status and the event
  of that status, both of the order; and when the status is \<^verbatim>\<open>FAILED\<close> both carry the
  text of the error \<open>err\<close>.
\<close>

definition failure_update :: "error \<Rightarrow> StatusData option" where
  "failure_update err = Some (no_data\<lparr>sd_failureReason := Some (error_message err)\<rparr>)"

definition failure_event :: "string \<Rightarrow> error \<Rightarrow> nat \<Rightarrow> OrderStatusUpdate" where
  "failure_event orderId err t =
     \<lparr>u_orderId = orderId, u_status = FAILED, u_message = ''Order execution failed'',
      u_data = Some (no_update_data\<lparr>d_error := Some (error_message err)\<rparr>), u_timestamp = t\<rparr>"

text \<open>The last two elements of a list.\<close>

fun last_two :: "'a list \<Rightarrow> ('a \<times> 'a) option" where
  "last_two [x, y] = Some (x, y)"
| "last_two (x # xs) = last_two xs"
| "last_two [] = None"




subsection \<open>The order and the quotes of the repository's tests\<close>

definition mockOrder :: Order where
  "mockOrder =
     \<lparr>order_id = ''test-order-123'', order_type = ''MARKET'', status = PENDING,
      fromToken = ''SOL'', toToken = ''USDC'', amount = 10,
      selectedDex = None, raydiumPrice = None, meteoraPrice = None, executionPrice = None,
      txHash = None, slippageTolerance = 1 / 100, retryCount = 0, failureReason = None,
      createdAt = 0, updatedAt = 0, completedAt = None\<rparr>"

definition mockRaydiumQuote :: DexQuote where
  "mockRaydiumQuote =
     \<lparr>dex = RAYDIUM, price = 100, outputAmount = 1000, priceImpact = 5 / 1000, timestamp = 0\<rparr>"

definition mockMeteoraQuote :: DexQuote where
  "mockMeteoraQuote =
     \<lparr>dex = METEORA, price = 98, outputAmount = 980, priceImpact = 7 / 1000, timestamp = 0\<rparr>"

text \<open>A store that holds the order, and one that does not.\<close>

definition mockWorld :: world where
  "mockWorld =
     \<lparr>db = [''test-order-123'' \<mapsto> mockOrder], cache = Map.empty, io_faults = (\<lambda>n. False),
      io_count = 0, effects = [], clock = 0\<rparr>"

definition emptyWorld :: world where
  "emptyWorld =
     \<lparr>db = Map.empty, cache = Map.empty, io_faults = (\<lambda>n. False), io_count = 0,
      effects = [], clock = 0\<rparr>"

text \<open>
  The store that holds the order and rejects one call to the outside: the call number 1,
  which is the first write to the cache; the call number 9, which is the write to the
  cache of the update to \<^verbatim>\<open>CONFIRMED\<close> when the first attempt gets that far; or the call
  number 12, which is the write to the cache of the update to \<^verbatim>\<open>FAILED\<close> when every
  attempt fails at the quote fetch (three calls per attempt that is retried, and two in
  the last one before that update).
\<close>

definition firstCacheWriteFails :: world where
  "firstCacheWriteFails = mockWorld\<lparr>io_faults := (\<lambda>n. n = 1)\<rparr>"

definition confirmedCacheWriteFails :: world where
  "confirmedCacheWriteFails = mockWorld\<lparr>io_faults := (\<lambda>n. n = 9)\<rparr>"

definition lastCacheWriteFails :: world where
  "lastCacheWriteFails = mockWorld\<lparr>io_faults := (\<lambda>n. n = 12)\<rparr>"

text \<open>
  An attempt in which everything succeeds; one whose submission draws a random number
  below 0.05; and the run whose first submission fails that way and whose second attempt
  succeeds.
\<close>

definition goodAttempt :: attempt_env where
  "goodAttempt =
     \<lparr>getQuotes_result = Inr (mockRaydiumQuote, mockMeteoraQuote), submit_random = 1 / 2,
      submit_uuid = ''0a1b-2c3d'', round_double = round_within_range\<rparr>"

definition failedSubmission :: attempt_env where
  "failedSubmission = goodAttempt\<lparr>submit_random := 1 / 100\<rparr>"

definition quoteFetchFails :: attempt_env where
  "quoteFetchFails = goodAttempt\<lparr>getQuotes_result := Inl (Error (Msg ''Persistent network error''))\<rparr>"

definition submissionFailsOnce :: "nat \<Rightarrow> attempt_env" where
  "submissionFailsOnce n = (if n = 0 then failedSubmission else goodAttempt)"

section \<open>Status broadcaster (WebSocketService)\<close>

text \<open>
  A socket is an object outside the service: its \<^verbatim>\<open>readyState\<close>, whether its \<^verbatim>\<open>send\<close> and
  its \<^verbatim>\<open>close\<close> throw, the messages \<^verbatim>\<open>send\<close> accepted, and how often \<^verbatim>\<open>send\<close> and
  \<^verbatim>\<open>close\<close> were called. The service refers to a socket by its handle. The map
  \<^verbatim>\<open>connections\<close> takes an order to its \<^verbatim>\<open>Set\<close> of sockets, kept as the list of the handles in
  insertion order; \<open>timers\<close> are the pending \<^verbatim>\<open>setTimeout\<close> calls, each with its delay and
  the order whose connections it will close. Calls of the logger are not recorded, and the
  message sent is the update itself rather than its JSON text.
\<close>

record SocketStream =
  readyState :: nat
  send_throws :: bool
  close_throws :: bool
  sent :: "OrderStatusUpdate list"
  send_calls :: nat
  close_calls :: nat

record ws_service =
  connections :: "string \<rightharpoonup> nat list"
  sockets :: "nat \<Rightarrow> SocketStream"
  timers :: "(nat \<times> string) list"

definition set_add :: "nat \<Rightarrow> nat list \<Rightarrow> nat list" where
  "set_add h cs = (if h \<in> set cs then cs else cs @ [h])"

text \<open>
  \<^verbatim>\<open>registerConnection\<close> creates the order's set when the map has none and adds the socket
  to it. The handlers it installs run \<^verbatim>\<open>unregisterConnection\<close> when the socket later emits
  \<^verbatim>\<open>close\<close> or \<^verbatim>\<open>error\<close>; \<^verbatim>\<open>unregisterConnection\<close> deletes the socket from the set and
  the set from the map once it is empty.
\<close>

definition registerConnection :: "string \<Rightarrow> nat \<Rightarrow> ws_service \<Rightarrow> ws_service" where
  "registerConnection orderId h s =
     (let s1 = (if connections s orderId = None
                then s\<lparr>connections := (connections s)(orderId \<mapsto> [])\<rparr> else s)
      in case connections s1 orderId of
           None \<Rightarrow> s1
         | Some cs \<Rightarrow> s1\<lparr>connections := (connections s1)(orderId \<mapsto> set_add h cs)\<rparr>)"

definition unregisterConnection :: "string \<Rightarrow> nat \<Rightarrow> ws_service \<Rightarrow> ws_service" where
  "unregisterConnection orderId h s =
     (case connections s orderId of
        None \<Rightarrow> s
      | Some cs \<Rightarrow>
          (let cs' = removeAll h cs in
           if length cs' = 0 then s\<lparr>connections := (connections s)(orderId := None)\<rparr>
           else s\<lparr>connections := (connections s)(orderId \<mapsto> cs')\<rparr>))"

text \<open>\<^verbatim>\<open>socket.send(message)\<close>: counted, and either thrown or accepted.\<close>

definition socket_send :: "nat \<Rightarrow> OrderStatusUpdate \<Rightarrow> ws_service \<Rightarrow> (error + unit) \<times> ws_service" where
  "socket_send h msg s =
     (let k = sockets s h in
      if send_throws k
      then (Inl (Error (Msg ''Send failed'')),
            s\<lparr>sockets := (sockets s)(h := k\<lparr>send_calls := send_calls k + 1\<rparr>)\<rparr>)
      else (Inr (),
            s\<lparr>sockets := (sockets s)(h := k\<lparr>sent := sent k @ [msg],
                                              send_calls := send_calls k + 1\<rparr>)\<rparr>))"

text \<open>\<^verbatim>\<open>socket.close()\<close>: counted, and either thrown or the socket starts closing.\<close>

definition socket_close :: "nat \<Rightarrow> ws_service \<Rightarrow> (error + unit) \<times> ws_service" where
  "socket_close h s =
     (let k = sockets s h in
      if close_throws k
      then (Inl (Error (Msg ''Close failed'')),
            s\<lparr>sockets := (sockets s)(h := k\<lparr>close_calls := close_calls k + 1\<rparr>)\<rparr>)
      else (Inr (),
            s\<lparr>sockets := (sockets s)(h := k\<lparr>readyState := 2,
                                              close_calls := close_calls k + 1\<rparr>)\<rparr>))"

text \<open>
  The callback of \<^verbatim>\<open>connections.forEach\<close> in \<^verbatim>\<open>broadcastStatusUpdate\<close>: the \<^verbatim>\<open>try\<close> with
  the test of \<^verbatim>\<open>readyState\<close>, and the \<^verbatim>\<open>catch\<close> that unregisters the socket.
\<close>

definition broadcast_to :: "OrderStatusUpdate \<Rightarrow> nat \<Rightarrow> ws_service \<Rightarrow> ws_service" where
  "broadcast_to update h s =
     (if readyState (sockets s h) = 1
      then (case socket_send h update s of
              (Inr u, s') \<Rightarrow> s'
            | (Inl e, s') \<Rightarrow> unregisterConnection (u_orderId update) h s')
      else s)"

text \<open>
  \<^verbatim>\<open>broadcastStatusUpdate\<close>. The loop visits the sockets that were in the set when it
  started; a visit removes at most the socket it visits. The result \<open>Inr ()\<close> is the normal
  return.
\<close>

definition broadcastStatusUpdate :: "OrderStatusUpdate \<Rightarrow> ws_service \<Rightarrow> (error + unit) \<times> ws_service" where
  "broadcastStatusUpdate update s =
     (case connections s (u_orderId update) of
        None \<Rightarrow> (Inr (), s)
      | Some cs \<Rightarrow>
          if length cs = 0 then (Inr (), s)
          else
            (let s1 = fold (broadcast_to update) cs s in
             if u_status update = CONFIRMED \<or> u_status update = FAILED
             then (Inr (), s1\<lparr>timers := timers s1 @ [(5000, u_orderId update)]\<rparr>)
             else (Inr (), s1)))"

definition close_one :: "nat \<Rightarrow> ws_service \<Rightarrow> ws_service" where
  "close_one h s = snd (socket_close h s)"

definition closeOrderConnections :: "string \<Rightarrow> ws_service \<Rightarrow> ws_service" where
  "closeOrderConnections orderId s =
     (case connections s orderId of
        None \<Rightarrow> s
      | Some cs \<Rightarrow>
          (let s1 = fold close_one cs s
           in s1\<lparr>connections := (connections s1)(orderId := None)\<rparr>))"

definition getOrderConnections :: "string \<Rightarrow> ws_service \<Rightarrow> nat" where
  "getOrderConnections orderId s =
     (case connections s orderId of None \<Rightarrow> 0 | Some cs \<Rightarrow> length cs)"

text \<open>A pending timer fires: its callback \<^verbatim>\<open>closeOrderConnections(orderId)\<close> runs.\<close>

definition fire :: "nat \<times> string \<Rightarrow> ws_service \<Rightarrow> ws_service" where
  "fire t s = closeOrderConnections (snd t) s"

text \<open>The sockets subscribed to an order.\<close>

definition subscribers :: "string \<Rightarrow> ws_service \<Rightarrow> nat set" where
  "subscribers orderId s = (case connections s orderId of None \<Rightarrow> {} | Some cs \<Rightarrow> set cs)"

definition subscriber_list :: "string \<Rightarrow> ws_service \<Rightarrow> nat list" where
  "subscriber_list orderId s = (case connections s orderId of None \<Rightarrow> [] | Some cs \<Rightarrow> cs)"

text \<open>
  A socket on which a delivery fails (it is open and its \<^verbatim>\<open>send\<close> throws), and one on which
  it succeeds.
\<close>

definition fails :: "ws_service \<Rightarrow> nat \<Rightarrow> bool" where
  "fails s h = (readyState (sockets s h) = 1 \<and> send_throws (sockets s h))"

definition delivers :: "ws_service \<Rightarrow> nat \<Rightarrow> bool" where
  "delivers s h = (readyState (sockets s h) = 1 \<and> \<not> send_throws (sockets s h))"

subsection \<open>The sockets of the broadcaster's tests\<close>

definition openSocket :: SocketStream where
  "openSocket = \<lparr>readyState = 1, send_throws = False, close_throws = False, sent = [],
                 send_calls = 0, close_calls = 0\<rparr>"

definition failingSocket :: SocketStream where
  "failingSocket = openSocket\<lparr>send_throws := True\<rparr>"

definition closingSocket :: SocketStream where
  "closingSocket = openSocket\<lparr>readyState := 2\<rparr>"

text \<open>
  A service with no connection, whose socket 1 is open, socket 2 throws on \<^verbatim>\<open>send\<close>, socket
  3 is closing, and every other socket is open.
\<close>

definition newService :: ws_service where
  "newService =
     \<lparr>connections = Map.empty,
      sockets = (\<lambda>h. if h = 2 then failingSocket else if h = 3 then closingSocket else openSocket),
      timers = []\<rparr>"

text \<open>The service after sockets 1, 2 and 3 subscribed to the order of the tests.\<close>

definition threeSubscribers :: ws_service where
  "threeSubscribers =
     registerConnection ''test-order-123'' 3
       (registerConnection ''test-order-123'' 2
         (registerConnection ''test-order-123'' 1 newService))"

definition routingUpdate :: OrderStatusUpdate where
  "routingUpdate =
     \<lparr>u_orderId = ''test-order-123'', u_status = ROUTING, u_message = ''Comparing DEX prices'',
      u_data = None, u_timestamp = 0\<rparr>"

definition confirmedUpdate :: OrderStatusUpdate where
  "confirmedUpdate = routingUpdate\<lparr>u_status := CONFIRMED, u_message := ''Transaction successful''\<rparr>"

section \<open>Admission (OrderQueueService)\<close>

record Job =
  job_name :: string
  job_data :: Order
  job_id :: string
  job_priority :: nat

text \<open>
  Modelled from the spec: \<^verbatim>\<open>Queue.add\<close> belongs to the BullMQ library, which is not part
  of the repository. The specification says that admission is keyed by the order's own
  identifier so that duplicate admission is a no-op: a job whose identifier the queue
  already holds is not added, any other job is appended.
\<close>

definition queue_add :: "string \<Rightarrow> Order \<Rightarrow> string \<Rightarrow> nat \<Rightarrow> Job list \<Rightarrow> Job list" where
  "queue_add name data jobId priority q =
     (if jobId \<in> set (map job_id q) then q
      else q @ [\<lparr>job_name = name, job_data = data, job_id = jobId, job_priority = priority\<rparr>])"

text \<open>\<^verbatim>\<open>getOrderPriority\<close>: the \<^verbatim>\<open>switch\<close> on the text of the order's type.\<close>

definition getOrderPriority :: "Order \<Rightarrow> nat" where
  "getOrderPriority order =
     (let orderType = order_type order in
      if orderType = ''MARKET'' then 1
      else if orderType = ''LIMIT'' then 2
      else if orderType = ''SNIPER'' then 3
      else 5)"

text \<open>\<^verbatim>\<open>addOrder\<close>: the job is added under the order's identifier, then one info line.\<close>

definition addOrder :: "Order \<Rightarrow> Job list \<Rightarrow> Job list \<times> log_entry list" where
  "addOrder order q =
     (queue_add ''execute-order'' order (order_id order) (getOrderPriority order) q,
      [(Info, ''Order added to execution queue'')])"

section \<open>Properties of the quote router\<close>

text \<open>
  C2, as the code has it. \<^verbatim>\<open>selectBestDex\<close> returns the Raydium quote exactly when its output
  amount is strictly greater, and the Meteora quote otherwise: the chosen output is the
  larger of the two, and on equal outputs the second-listed venue (Meteora) is returned.
  The venue chosen does not change when the two prices change, and calling it again on the
  same quotes gives the same result. For outputs 1000 and 980 the 1000-output quote is
  chosen in either listing order.
\<close>

theorem selectBestDex_by_output:
  "fst (selectBestDex r m) = (if outputAmount r > outputAmount m then r else m)
   \<and> outputAmount (fst (selectBestDex r m)) = max (outputAmount r) (outputAmount m)
   \<and> (fst (selectBestDex r m) = r \<or> fst (selectBestDex r m) = m)
   \<and> (if outputAmount r = outputAmount m then fst (selectBestDex r m) = m else True)
   \<and> dex (fst (selectBestDex (r\<lparr>price := p\<rparr>) (m\<lparr>price := q\<rparr>)))
       = dex (fst (selectBestDex r m))
   \<and> fst (selectBestDex
        \<lparr>dex = RAYDIUM, price = 100, outputAmount = 1000, priceImpact = 1/100, timestamp = 0\<rparr>
        \<lparr>dex = METEORA, price = 98, outputAmount = 980, priceImpact = 1/100, timestamp = 0\<rparr>)
       = \<lparr>dex = RAYDIUM, price = 100, outputAmount = 1000, priceImpact = 1/100, timestamp = 0\<rparr>
   \<and> fst (selectBestDex
        \<lparr>dex = RAYDIUM, price = 98, outputAmount = 980, priceImpact = 1/100, timestamp = 0\<rparr>
        \<lparr>dex = METEORA, price = 100, outputAmount = 1000, priceImpact = 1/100, timestamp = 0\<rparr>)
       = \<lparr>dex = METEORA, price = 100, outputAmount = 1000, priceImpact = 1/100, timestamp = 0\<rparr>"
  by (simp add: selectBestDex_def)

text \<open>
  C2 as stated fails on a tie: with equal output amounts the quote returned is Meteora's,
  not the first-listed Raydium quote.
\<close>

theorem selectBestDex_tie_counterexample:
  "outputAmount \<lparr>dex = RAYDIUM, price = 100, outputAmount = 1000, priceImpact = 0, timestamp = 0\<rparr>
     = outputAmount \<lparr>dex = METEORA, price = 100, outputAmount = 1000, priceImpact = 0, timestamp = 0\<rparr>
   \<and> dex (fst (selectBestDex
        \<lparr>dex = RAYDIUM, price = 100, outputAmount = 1000, priceImpact = 0, timestamp = 0\<rparr>
        \<lparr>dex = METEORA, price = 100, outputAmount = 1000, priceImpact = 0, timestamp = 0\<rparr>))
       = METEORA
   \<and> fst (selectBestDex
        \<lparr>dex = RAYDIUM, price = 100, outputAmount = 1000, priceImpact = 0, timestamp = 0\<rparr>
        \<lparr>dex = METEORA, price = 100, outputAmount = 1000, priceImpact = 0, timestamp = 0\<rparr>)
       \<noteq> \<lparr>dex = RAYDIUM, price = 100, outputAmount = 1000, priceImpact = 0, timestamp = 0\<rparr>"
  by (simp add: selectBestDex_def)

lemma exact_int:
  assumes "rounds_like_double fl" and "\<bar>n\<bar> \<le> 2 ^ 53"
  shows "fl (of_int n) = Finite (of_int n)"
  using assms(1) [unfolded rounds_like_double_def] assms(2)
  by (metis div_by_1 le0 power_0)

lemma exact_dyadic:
  assumes "rounds_like_double fl" and "\<bar>n\<bar> \<le> 2 ^ 53" and "k \<le> 1022"
  shows "fl (of_int n / 2 ^ k) = Finite (of_int n / 2 ^ k)"
  using assms by (simp add: rounds_like_double_def)

lemma round_mono:
  assumes "rounds_like_double fl" and "x \<le> y"
  shows "js_le (fl x) (fl y)"
  using assms by (simp add: rounds_like_double_def)

lemma above:
  assumes "js_le (Finite c) q" and "10 < c"
  shows "js_gt q 10"
  using assms by (cases q) (auto simp add: js_le_def is_infinite_def)

lemma below:
  assumes "js_le q (Finite c)" and "c \<le> 10"
  shows "\<not> js_gt q 10"
  using assms by (cases q) (auto simp add: js_le_def is_infinite_def)

lemma percentage_100_120:
  assumes r: "rounds_like_double fl"
  shows "js_gt (percentageDiff fl (quoteAt RAYDIUM 100) (quoteAt METEORA 120)) 10"
proof -
  have e1: "fl (- 20) = Finite (- 20)" using exact_int [OF r, of "- 20"] by simp
  have e2: "fl 220 = Finite 220" using exact_int [OF r, of 220] by simp
  have e3: "fl 110 = Finite 110" using exact_int [OF r, of 110] by simp
  have e4: "fl (1 / 8) = Finite (1 / 8)" using exact_dyadic [OF r, of 1 3] by simp
  have e5: "fl (25 / 2) = Finite (25 / 2)" using exact_dyadic [OF r, of 25 1] by simp
  let ?q = "fl (2 / 11)"
  have q: "js_le (Finite (1 / 8)) ?q"
    using round_mono [OF r, of "1 / 8" "2 / 11"] by (simp add: e4)
  have pct: "percentageDiff fl (quoteAt RAYDIUM 100) (quoteAt METEORA 120) = js_times fl ?q (Finite 100)"
    by (simp add: percentageDiff_def quoteAt_def js_sub_def js_add_def js_div_def is_infinite_def
          is_zero_def e1 e2 e3)
  show ?thesis
  proof (cases ?q)
    case (Finite v)
    with q have v: "1 / 8 \<le> v" by (simp add: js_le_def is_infinite_def)
    have "js_le (fl (25 / 2)) (fl (v * 100))"
      using v by (intro round_mono [OF r]) simp
    then have "js_gt (fl (v * 100)) 10"
      unfolding e5 by (rule above) simp
    then show ?thesis
      using v by (simp add: pct Finite js_times_def is_infinite_def is_zero_def)
  next
    case NegZero
    with q show ?thesis by (simp add: js_le_def is_infinite_def)
  next
    case PosInfinity
    then show ?thesis
      by (simp add: pct js_times_def is_infinite_def is_zero_def signed_infinity_def)
  next
    case NegInfinity
    with q show ?thesis by (simp add: js_le_def is_infinite_def)
  next
    case NaN
    with q show ?thesis by (simp add: js_le_def)
  qed
qed

lemma percentage_100_102:
  assumes r: "rounds_like_double fl"
  shows "\<not> js_gt (percentageDiff fl (quoteAt RAYDIUM 100) (quoteAt METEORA 102)) 10"
proof -
  have e1: "fl (- 2) = Finite (- 2)" using exact_int [OF r, of "- 2"] by simp
  have e2: "fl 202 = Finite 202" using exact_int [OF r, of 202] by simp
  have e3: "fl 101 = Finite 101" using exact_int [OF r, of 101] by simp
  have e4: "fl (1 / 32) = Finite (1 / 32)" using exact_dyadic [OF r, of 1 5] by simp
  have e5: "fl (25 / 8) = Finite (25 / 8)" using exact_dyadic [OF r, of 25 3] by simp
  let ?q = "fl (2 / 101)"
  have q: "js_le ?q (Finite (1 / 32))"
    using round_mono [OF r, of "2 / 101" "1 / 32"] by (simp add: e4)
  have pct: "percentageDiff fl (quoteAt RAYDIUM 100) (quoteAt METEORA 102) = js_times fl ?q (Finite 100)"
    by (simp add: percentageDiff_def quoteAt_def js_sub_def js_add_def js_div_def is_infinite_def
          is_zero_def e1 e2 e3)
  show ?thesis
  proof (cases ?q)
    case (Finite v)
    with q have v: "v \<le> 1 / 32" by (simp add: js_le_def is_infinite_def)
    show ?thesis
    proof (cases "v = 0")
      case True
      then show ?thesis
        by (simp add: pct Finite js_times_def is_infinite_def is_zero_def signed_zero_def)
    next
      case False
      have "js_le (fl (v * 100)) (fl (25 / 8))"
        using v by (intro round_mono [OF r]) simp
      then have "\<not> js_gt (fl (v * 100)) 10"
        unfolding e5 by (rule below) simp
      then show ?thesis
        using False by (simp add: pct Finite js_times_def is_infinite_def is_zero_def)
    qed
  next
    case NegZero
    then show ?thesis
      by (simp add: pct js_times_def is_infinite_def is_zero_def signed_zero_def)
  next
    case PosInfinity
    with q show ?thesis by (simp add: js_le_def is_infinite_def)
  next
    case NegInfinity
    then show ?thesis
      by (simp add: pct js_times_def is_infinite_def is_zero_def signed_infinity_def)
  next
    case NaN
    with q show ?thesis by (simp add: js_le_def)
  qed
qed

lemma percentage_overflow:
  assumes sum: "price r + price m \<noteq> 0" "fl (price r + price m) = PosInfinity"
    and diff: "js_sub fl (Finite (price r)) (Finite (price m)) = Finite d"
  shows "percentageDiff fl r m = Finite 0"
proof -
  have avg: "js_div fl (js_add fl (Finite (price r)) (Finite (price m))) (Finite 2) = PosInfinity"
    using sum by (simp add: js_add_def js_div_def is_infinite_def signed_infinity_def)
  have "percentageDiff fl r m = js_times fl (js_div fl (Finite \<bar>d\<bar>) PosInfinity) (Finite 100)"
    unfolding percentageDiff_def Let_def avg diff by simp
  also have "\<dots> = Finite 0"
    by (simp add: js_div_def js_times_def is_infinite_def is_zero_def signed_zero_def)
  finally show ?thesis .
qed

lemma round_within_range_double: "rounds_like_double round_within_range"
proof -
  have mono: "js_le (round_within_range x) (round_within_range y)" if "x \<le> y" for x y
    using that
    by (auto simp add: round_within_range_def js_le_def is_infinite_def signed_infinity_def)
  have exact: "round_within_range (of_int n / 2 ^ k) = Finite (of_int n / 2 ^ k)"
    if "\<bar>n\<bar> \<le> 2 ^ 53" for n :: int and k :: nat
  proof -
    have "\<bar>(of_int n :: real) / 2 ^ k\<bar> = \<bar>of_int n\<bar> / 2 ^ k" by simp
    also have "\<dots> \<le> \<bar>of_int n\<bar>"
    proof -
      have "(1 :: real) \<le> 2 ^ k" by simp
      then have "\<bar>real_of_int n\<bar> * 1 \<le> \<bar>real_of_int n\<bar> * 2 ^ k"
        by (intro mult_left_mono) simp_all
      then show ?thesis by (simp add: divide_le_eq)
    qed
    also have "\<dots> \<le> 2 ^ 53"
    proof -
      have "(of_int \<bar>n\<bar> :: real) \<le> of_int (2 ^ 53)" using that by (rule of_int_le_iff [THEN iffD2])
      then show ?thesis by simp
    qed
    also have "\<dots> < (2 :: real) ^ 1024" by (rule power_strict_increasing) simp_all
    finally show ?thesis by (simp add: round_within_range_def)
  qed
  show ?thesis
    unfolding rounds_like_double_def using mono exact by blast
qed

lemma overflow_2_1023:
  "round_within_range (2 ^ 1023 + 2 ^ 1023) = PosInfinity"
proof -
  have "(2 :: real) ^ 1023 + 2 ^ 1023 = 2 ^ 1024"
    using power_Suc [of "2 :: real" 1023] by simp
  then show ?thesis
    by (simp add: round_within_range_def signed_infinity_def)
qed

text \<open>
  C5. \<^verbatim>\<open>validateQuotes\<close> returns true for every pair of quotes, and it logs a warning
  exactly when the percentage it computes exceeds 10. The percentage is
  \<open>|a - b| / ((a + b) / 2) * 100\<close> as the runtime computes it, in doubles, each operation
  rounded. For every rounding that is monotone and leaves the doubles \<open>n / 2 ^ k\<close> as
  they are, as the rounding to the nearest double does, prices 100 and 120 give a warning
  and prices 100 and 102 give none. When the sum of the prices overflows to \<^verbatim>\<open>Infinity\<close>
  and their difference is finite, the percentage is 0 and nothing is logged.
\<close>

theorem validateQuotes_warns_iff:
  "fst (validateQuotes fl r m) = True
   \<and> (warnings (snd (validateQuotes fl r m)) \<noteq> [] \<longleftrightarrow> js_gt (percentageDiff fl r m) 10)
   \<and> percentageDiff fl r m =
       js_times fl
         (js_div fl (js_abs (js_sub fl (Finite (price r)) (Finite (price m))))
            (js_div fl (js_add fl (Finite (price r)) (Finite (price m))) (Finite 2)))
         (Finite 100)
   \<and> (rounds_like_double fl \<longrightarrow>
         warnings (snd (validateQuotes fl (quoteAt RAYDIUM 100) (quoteAt METEORA 120)))
           = [(Warn, ''Large price difference detected between DEXs'')]
       \<and> snd (validateQuotes fl (quoteAt RAYDIUM 100) (quoteAt METEORA 102)) = [])
   \<and> (price r + price m \<noteq> 0 \<and> fl (price r + price m) = PosInfinity
       \<and> js_sub fl (Finite (price r)) (Finite (price m)) = Finite d \<longrightarrow>
         percentageDiff fl r m = Finite 0 \<and> snd (validateQuotes fl r m) = [])"
proof -
  have a: "fst (validateQuotes fl r m) = True"
    by (simp add: validateQuotes_def)
  have b: "warnings (snd (validateQuotes fl r m)) \<noteq> [] \<longleftrightarrow> js_gt (percentageDiff fl r m) 10"
    by (simp add: validateQuotes_def warnings_def)
  have c: "percentageDiff fl r m =
       js_times fl
         (js_div fl (js_abs (js_sub fl (Finite (price r)) (Finite (price m))))
            (js_div fl (js_add fl (Finite (price r)) (Finite (price m))) (Finite 2)))
         (Finite 100)"
    by (simp add: percentageDiff_def Let_def)
  have d: "warnings (snd (validateQuotes fl (quoteAt RAYDIUM 100) (quoteAt METEORA 120)))
           = [(Warn, ''Large price difference detected between DEXs'')]
       \<and> snd (validateQuotes fl (quoteAt RAYDIUM 100) (quoteAt METEORA 102)) = []"
    if "rounds_like_double fl"
    using percentage_100_120 [OF that] percentage_100_102 [OF that]
    by (simp add: validateQuotes_def warnings_def)
  have e: "percentageDiff fl r m = Finite 0 \<and> snd (validateQuotes fl r m) = []"
    if "price r + price m \<noteq> 0" "fl (price r + price m) = PosInfinity"
      "js_sub fl (Finite (price r)) (Finite (price m)) = Finite d"
    using percentage_overflow [OF that] by (simp add: validateQuotes_def)
  from a b c d e show ?thesis by blast
qed

theorem validateQuotes_warns_iff_witness:
  "rounds_like_double round_within_range
   \<and> price (quoteAt RAYDIUM (2 ^ 1023)) + price (quoteAt METEORA (2 ^ 1023)) \<noteq> 0
   \<and> round_within_range (price (quoteAt RAYDIUM (2 ^ 1023)) + price (quoteAt METEORA (2 ^ 1023)))
       = PosInfinity
   \<and> js_sub round_within_range (Finite (price (quoteAt RAYDIUM (2 ^ 1023))))
        (Finite (price (quoteAt METEORA (2 ^ 1023)))) = Finite 0
   \<and> percentageDiff round_within_range (quoteAt RAYDIUM (2 ^ 1023)) (quoteAt METEORA (2 ^ 1023))
       = Finite 0
   \<and> snd (validateQuotes round_within_range (quoteAt RAYDIUM (2 ^ 1023)) (quoteAt METEORA (2 ^ 1023)))
       = []
   \<and> warnings (snd (validateQuotes round_within_range (quoteAt RAYDIUM 100) (quoteAt METEORA 120)))
       = [(Warn, ''Large price difference detected between DEXs'')]
   \<and> snd (validateQuotes round_within_range (quoteAt RAYDIUM 100) (quoteAt METEORA 102)) = []"
proof -
  have sum: "price (quoteAt RAYDIUM (2 ^ 1023)) + price (quoteAt METEORA (2 ^ 1023)) \<noteq> 0"
    by (simp add: quoteAt_def)
  have over: "round_within_range
      (price (quoteAt RAYDIUM (2 ^ 1023)) + price (quoteAt METEORA (2 ^ 1023))) = PosInfinity"
    using overflow_2_1023 by (simp add: quoteAt_def)
  have diff: "js_sub round_within_range (Finite (price (quoteAt RAYDIUM (2 ^ 1023))))
        (Finite (price (quoteAt METEORA (2 ^ 1023)))) = Finite 0"
    by (simp add: quoteAt_def js_sub_def js_add_def is_infinite_def)
  show ?thesis
    using round_within_range_double sum over diff
      validateQuotes_warns_iff [of round_within_range "quoteAt RAYDIUM (2 ^ 1023)"
        "quoteAt METEORA (2 ^ 1023)" 0]
    by blast
qed

section \<open>Properties of the order store\<close>

lemma reliable_update:
  "reliable (s\<lparr>db := d\<rparr>) = reliable s"
  "reliable (s\<lparr>cache := c\<rparr>) = reliable s"
  "reliable (s\<lparr>io_count := k\<rparr>) = reliable s"
  "reliable (s\<lparr>effects := es\<rparr>) = reliable s"
  by (simp_all add: reliable_def)

lemma reliable_clock: "reliable (w\<lparr>clock := t\<rparr>) = reliable w"
  by (simp add: reliable_def)

lemma reliable_next: "reliable s \<Longrightarrow> \<not> io_faults s n"
  by (simp add: reliable_def)

lemma updateOrderStatus_cases:
  "updateOrderStatus orderId st data now s =
     (if io_faults s (io_count s) then (Inl database_error, s\<lparr>io_count := io_count s + 1\<rparr>)
      else case db s orderId of
             None \<Rightarrow> (Inl record_not_found, s\<lparr>io_count := io_count s + 1\<rparr>)
           | Some row \<Rightarrow>
               (if io_faults s (io_count s + 1)
                then (Inl redis_error,
                      s\<lparr>db := (db s)(orderId \<mapsto> apply_data (updateData st data now) row),
                        io_count := io_count s + 2,
                        effects := effects s @ [Persisted orderId st data]\<rparr>)
                else (Inr (apply_data (updateData st data now) row),
                      s\<lparr>db := (db s)(orderId \<mapsto> apply_data (updateData st data now) row),
                        effects := effects s @ [Persisted orderId st data],
                        cache := (cache s)(''order:'' @ order_id (apply_data (updateData st data now) row)
                                    \<mapsto> apply_data (updateData st data now) row),
                        io_count := io_count s + 2\<rparr>)))"
  by (simp add: updateOrderStatus_def andThen_def prisma_order_update_def cacheOrder_def succeed_def
        split: option.split)

lemma updateData_fields:
  "p_status (updateData st data now) = Some st"
  "p_updatedAt (updateData st data now) = Some now"
  "p_completedAt (updateData st data now) = (if st = CONFIRMED \<or> st = FAILED then Some now else None)"
  "p_selectedDex (updateData st data now) = (case data of None \<Rightarrow> None | Some d \<Rightarrow> sd_selectedDex d)"
  "p_raydiumPrice (updateData st data now) =
     (case data of None \<Rightarrow> None
      | Some d \<Rightarrow> if truthy_number (sd_raydiumPrice d) then sd_raydiumPrice d else None)"
  "p_meteoraPrice (updateData st data now) =
     (case data of None \<Rightarrow> None
      | Some d \<Rightarrow> if truthy_number (sd_meteoraPrice d) then sd_meteoraPrice d else None)"
  "p_executionPrice (updateData st data now) =
     (case data of None \<Rightarrow> None
      | Some d \<Rightarrow> if truthy_number (sd_executionPrice d) then sd_executionPrice d else None)"
  "p_txHash (updateData st data now) =
     (case data of None \<Rightarrow> None
      | Some d \<Rightarrow> if truthy_string (sd_txHash d) then sd_txHash d else None)"
  "p_failureReason (updateData st data now) =
     (case data of None \<Rightarrow> None
      | Some d \<Rightarrow> if truthy_message (sd_failureReason d) then sd_failureReason d else None)"
  by (simp_all add: updateData_def Let_def split: option.split)

lemma apply_data_fields:
  "status (apply_data u row) = set_column (p_status u) (status row)"
  "updatedAt (apply_data u row) = set_column (p_updatedAt u) (updatedAt row)"
  "completedAt (apply_data u row) = set_nullable (p_completedAt u) (completedAt row)"
  "selectedDex (apply_data u row) = set_nullable (p_selectedDex u) (selectedDex row)"
  "raydiumPrice (apply_data u row) = set_nullable (p_raydiumPrice u) (raydiumPrice row)"
  "meteoraPrice (apply_data u row) = set_nullable (p_meteoraPrice u) (meteoraPrice row)"
  "executionPrice (apply_data u row) = set_nullable (p_executionPrice u) (executionPrice row)"
  "txHash (apply_data u row) = set_nullable (p_txHash u) (txHash row)"
  "failureReason (apply_data u row) = set_nullable (p_failureReason u) (failureReason row)"
  "order_id (apply_data u row) = order_id row"
  "order_type (apply_data u row) = order_type row"
  "fromToken (apply_data u row) = fromToken row"
  "toToken (apply_data u row) = toToken row"
  "amount (apply_data u row) = amount row"
  "slippageTolerance (apply_data u row) = slippageTolerance row"
  "retryCount (apply_data u row) = retryCount row"
  "createdAt (apply_data u row) = createdAt row"
  by (simp_all add: apply_data_def)

lemma mockOrder_fields:
  "order_id mockOrder = ''test-order-123''" "slippageTolerance mockOrder = 1 / 100"
  "raydiumPrice mockOrder = None" "retryCount mockOrder = 0"
  by (simp_all add: mockOrder_def)

lemma mockWorld_fields:
  "db mockWorld ''test-order-123'' = Some mockOrder" "reliable mockWorld"
  "effects mockWorld = []" "io_count mockWorld = 0" "io_faults mockWorld = (\<lambda>n. False)"
  by (simp_all add: mockWorld_def reliable_def)

text \<open>
  C10. When the order's row exists and the database accepts the update,
  \<^verbatim>\<open>updateOrderStatus\<close> with a \<^verbatim>\<open>data\<close> object stores the status and \<^verbatim>\<open>updatedAt\<close>, stores
  \<^verbatim>\<open>completedAt\<close> for a terminal status, and copies a field of \<^verbatim>\<open>data\<close> only when it is
  truthy: a price of 0 supplied for \<^verbatim>\<open>raydiumPrice\<close>, \<^verbatim>\<open>meteoraPrice\<close> or \<^verbatim>\<open>executionPrice\<close>
  leaves the stored price as it was. Every other column of the row, and every other row, is
  unchanged. The row is stored like this also when the cache then rejects its write, in
  which case the call rejects; when the database rejects the update, no row changes.
\<close>

theorem updateOrderStatus_frame:
  assumes found: "db s orderId = Some row"
  shows "\<exists>row'.
       db (snd (updateOrderStatus orderId st (Some d) now s))
         = (if io_faults s (io_count s) then db s else (db s)(orderId \<mapsto> row'))
     \<and> fst (updateOrderStatus orderId st (Some d) now s)
         = (if io_faults s (io_count s) then Inl database_error
            else if io_faults s (io_count s + 1) then Inl redis_error else Inr row')
     \<and> raydiumPrice row' = (if truthy_number (sd_raydiumPrice d) then sd_raydiumPrice d else raydiumPrice row)
     \<and> meteoraPrice row' = (if truthy_number (sd_meteoraPrice d) then sd_meteoraPrice d else meteoraPrice row)
     \<and> executionPrice row' = (if truthy_number (sd_executionPrice d) then sd_executionPrice d else executionPrice row)
     \<and> (if sd_raydiumPrice d = Some 0 then raydiumPrice row' = raydiumPrice row else True)
     \<and> (if sd_meteoraPrice d = Some 0 then meteoraPrice row' = meteoraPrice row else True)
     \<and> (if sd_executionPrice d = Some 0 then executionPrice row' = executionPrice row else True)
     \<and> selectedDex row' = (if sd_selectedDex d \<noteq> None then sd_selectedDex d else selectedDex row)
     \<and> txHash row' = (if truthy_string (sd_txHash d) then sd_txHash d else txHash row)
     \<and> failureReason row' = (if truthy_message (sd_failureReason d) then sd_failureReason d else failureReason row)
     \<and> status row' = st \<and> updatedAt row' = now
     \<and> completedAt row' = (if st = CONFIRMED \<or> st = FAILED then Some now else completedAt row)
     \<and> order_id row' = order_id row \<and> order_type row' = order_type row
     \<and> fromToken row' = fromToken row \<and> toToken row' = toToken row \<and> amount row' = amount row
     \<and> slippageTolerance row' = slippageTolerance row \<and> retryCount row' = retryCount row
     \<and> createdAt row' = createdAt row"
proof -
  let ?row' = "apply_data (updateData st (Some d) now) row"
  have stored: "db (snd (updateOrderStatus orderId st (Some d) now s))
         = (if io_faults s (io_count s) then db s else (db s)(orderId \<mapsto> ?row'))"
    using found by (simp add: updateOrderStatus_cases)
  have returned: "fst (updateOrderStatus orderId st (Some d) now s)
         = (if io_faults s (io_count s) then Inl database_error
            else if io_faults s (io_count s + 1) then Inl redis_error else Inr ?row')"
    using found by (simp add: updateOrderStatus_cases)
  have prices:
    "raydiumPrice ?row' = (if truthy_number (sd_raydiumPrice d) then sd_raydiumPrice d else raydiumPrice row)"
    "meteoraPrice ?row' = (if truthy_number (sd_meteoraPrice d) then sd_meteoraPrice d else meteoraPrice row)"
    "executionPrice ?row' = (if truthy_number (sd_executionPrice d) then sd_executionPrice d else executionPrice row)"
    by (simp_all add: apply_data_fields updateData_fields set_nullable_def split: option.split)
  have zero:
    "if sd_raydiumPrice d = Some 0 then raydiumPrice ?row' = raydiumPrice row else True"
    "if sd_meteoraPrice d = Some 0 then meteoraPrice ?row' = meteoraPrice row else True"
    "if sd_executionPrice d = Some 0 then executionPrice ?row' = executionPrice row else True"
    by (simp_all add: prices)
  have others:
    "selectedDex ?row' = (if sd_selectedDex d \<noteq> None then sd_selectedDex d else selectedDex row)"
    "txHash ?row' = (if truthy_string (sd_txHash d) then sd_txHash d else txHash row)"
    "failureReason ?row' = (if truthy_message (sd_failureReason d) then sd_failureReason d else failureReason row)"
    by (simp_all add: apply_data_fields updateData_fields set_nullable_def split: option.split)
  have stamps:
    "status ?row' = st" "updatedAt ?row' = now"
    "completedAt ?row' = (if st = CONFIRMED \<or> st = FAILED then Some now else completedAt row)"
    by (simp_all add: apply_data_fields updateData_fields set_nullable_def set_column_def)
  have frame:
    "order_id ?row' = order_id row" "order_type ?row' = order_type row"
    "fromToken ?row' = fromToken row" "toToken ?row' = toToken row" "amount ?row' = amount row"
    "slippageTolerance ?row' = slippageTolerance row" "retryCount ?row' = retryCount row"
    "createdAt ?row' = createdAt row"
    by (simp_all add: apply_data_fields)
  show ?thesis
    apply (rule exI [of _ ?row'])
    apply (intro conjI)
    apply (rule stored returned prices zero others stamps frame)+
    done
qed

theorem updateOrderStatus_frame_witness:
  "db mockWorld ''test-order-123'' = Some mockOrder
   \<and> (\<exists>row'. db (snd (updateOrderStatus ''test-order-123'' ROUTING
          (Some (no_data\<lparr>sd_raydiumPrice := Some 0, sd_executionPrice := Some 100\<rparr>)) 7 mockWorld))
          ''test-order-123'' = Some row'
      \<and> fst (updateOrderStatus ''test-order-123'' ROUTING
          (Some (no_data\<lparr>sd_raydiumPrice := Some 0, sd_executionPrice := Some 100\<rparr>)) 7 mockWorld)
        = Inr row'
      \<and> raydiumPrice row' = None \<and> executionPrice row' = Some 100
      \<and> status row' = ROUTING \<and> retryCount row' = 0)"
proof -
  have found: "db mockWorld ''test-order-123'' = Some mockOrder"
    by (simp add: mockOrder_fields mockWorld_fields)
  show ?thesis
    using found
      updateOrderStatus_frame [OF found, of ROUTING
        "no_data\<lparr>sd_raydiumPrice := Some 0, sd_executionPrice := Some 100\<rparr>" 7]
    by (auto simp add: mockOrder_fields mockWorld_fields no_data_def)
qed

section \<open>Properties of the execution orchestrator\<close>

lemma persist_eq:
  "reliable w \<Longrightarrow>
   persist orderId st data w =
     (case db w orderId of
        None \<Rightarrow> (Inl record_not_found, w\<lparr>io_count := io_count w + 1\<rparr>)
      | Some row \<Rightarrow>
          (Inr (apply_data (updateData st data (clock w)) row),
           w\<lparr>db := (db w)(orderId \<mapsto> apply_data (updateData st data (clock w)) row),
             effects := effects w @ [Persisted orderId st data],
             cache := (cache w)(''order:'' @ order_id (apply_data (updateData st data (clock w)) row)
                          \<mapsto> apply_data (updateData st data (clock w)) row),
             io_count := io_count w + 2\<rparr>))"
  by (simp add: persist_def updateOrderStatus_cases reliable_def split: option.split)

lemma incrementRetryCount_step_eq:
  "reliable w \<Longrightarrow>
   incrementRetryCount_step orderId w =
     (case db w orderId of
        None \<Rightarrow> (Inl record_not_found, w\<lparr>io_count := io_count w + 1\<rparr>)
      | Some row \<Rightarrow>
          (Inr (retryCount row + 1),
           w\<lparr>db := (db w)(orderId \<mapsto> row\<lparr>retryCount := retryCount row + 1, updatedAt := clock w\<rparr>),
             io_count := io_count w + 1,
             effects := effects w @ [RetryIncremented orderId]\<rparr>))"
  by (simp add: incrementRetryCount_step_def incrementRetryCount_def prisma_order_update_def
        andThen_def succeed_def reliable_def split: option.split)

lemmas try_unfold = executeMarketOrder_try_def andThen_def persist_eq reliable_update reliable_clock
  emitStatusUpdate_def getQuotes_def buildTransaction_def submitTransaction_def delay_def Let_def

lemma try_outcome:
  assumes "db w (order_id order) = Some row" and "reliable w"
  shows "fst (executeMarketOrder_try cfg e order w) = attempt_outcome e order"
  using assms
  by (simp add: try_unfold attempt_outcome_def split: sum.split prod.split)


lemma try_db:
  assumes "db w (order_id order) = Some row" and "reliable w"
  shows "db (snd (executeMarketOrder_try cfg e order w)) (order_id order) \<noteq> None"
  using assms
  by (simp add: try_unfold split: sum.split prod.split)

lemma try_reliable:
  assumes "db w (order_id order) = Some row" and "reliable w"
  shows "reliable (snd (executeMarketOrder_try cfg e order w))"
  using assms
  by (simp add: try_unfold split: sum.split prod.split)

lemma try_effects:
  assumes "db w (order_id order) = Some row" and "reliable w"
  shows "\<exists>es. effects (snd (executeMarketOrder_try cfg e order w)) = effects w @ es
     \<and> persist_then_publish es
     \<and> take 1 es = [Persisted (order_id order) ROUTING None]
     \<and> (case attempt_outcome e order of
          Inr u \<Rightarrow> persisted_statuses (order_id order) es = complete_attempt
            \<and> (\<exists>d u. last_two es = Some (Persisted (order_id order) CONFIRMED d, Published u)
                  \<and> u_orderId u = order_id order \<and> u_status u = CONFIRMED)
        | Inl err \<Rightarrow> failed_attempt (persisted_statuses (order_id order) es))"
  using assms
  by (simp add: try_unfold attempt_outcome_def complete_attempt_def failed_attempt_def
        split: sum.split prod.split)

lemma persist_then_publish_append:
  "persist_then_publish xs \<Longrightarrow> persist_then_publish ys \<Longrightarrow> persist_then_publish (xs @ ys)"
  by (induction xs rule: persist_then_publish.induct) simp_all

lemma persisted_statuses_append:
  "persisted_statuses k (xs @ ys) = persisted_statuses k xs @ persisted_statuses k ys"
  by (induction k xs rule: persisted_statuses.induct) simp_all

lemma published_eq_persisted:
  "persist_then_publish es \<Longrightarrow> published_statuses k es = persisted_statuses k es"
  by (induction es rule: persist_then_publish.induct) auto

lemma last_two_append:
  "last_two ys = Some p \<Longrightarrow> last_two (xs @ ys) = Some p"
proof (induction xs)
  case Nil
  then show ?case by simp
next
  case (Cons x xs)
  then have "last_two (xs @ ys) = Some p" by simp
  moreover from this have "xs @ ys \<noteq> []" by auto
  ultimately show ?case
    by (cases "xs @ ys" rule: last_two.cases) auto
qed



lemma run_success:
  assumes "executeMarketOrder_try cfg (env n) order w = (Inr u, w1)"
  shows "executeMarketOrder cfg env order n w = (Inr (), w1)"
  by (subst executeMarketOrder.simps) (simp add: assms)

lemma run_retry:
  assumes "executeMarketOrder_try cfg (env n) order w = (Inl err, w1)"
    and "db w1 (order_id order) = Some row1" and "reliable w1"
    and "n < maxRetries cfg"
  shows "executeMarketOrder cfg env order n w =
     executeMarketOrder cfg env order (n + 1)
       (w1\<lparr>db := (db w1)(order_id order \<mapsto>
               row1\<lparr>retryCount := retryCount row1 + 1, updatedAt := clock w1\<rparr>),
           io_count := io_count w1 + 1,
           effects := effects w1 @ [RetryIncremented (order_id order), Delayed (2 ^ n * 1000)],
           clock := clock w1 + 2 ^ n * 1000\<rparr>)"
  by (subst executeMarketOrder.simps)
     (simp add: assms incrementRetryCount_step_eq delay_def)

lemma run_exhausted:
  assumes "executeMarketOrder_try cfg (env n) order w = (Inl err, w1)"
    and "db w1 (order_id order) = Some row1" and "reliable w1"
    and "\<not> n < maxRetries cfg"
  shows "executeMarketOrder cfg env order n w =
     (Inr (),
      w1\<lparr>db := (db w1)(order_id order \<mapsto>
              apply_data (updateData FAILED
                (Some (no_data\<lparr>sd_failureReason := Some (error_message err)\<rparr>)) (clock w1)) row1),
          cache := (cache w1)(''order:'' @ order_id (apply_data (updateData FAILED
                (Some (no_data\<lparr>sd_failureReason := Some (error_message err)\<rparr>)) (clock w1)) row1) \<mapsto>
              apply_data (updateData FAILED
                (Some (no_data\<lparr>sd_failureReason := Some (error_message err)\<rparr>)) (clock w1)) row1),
          io_count := io_count w1 + 2,
          effects := effects w1 @
            [Persisted (order_id order) FAILED (failure_update err),
             Published (failure_event (order_id order) err (clock w1))]\<rparr>)"
  by (subst executeMarketOrder.simps)
     (simp add: assms andThen_def persist_eq emitStatusUpdate_def failure_update_def
        failure_event_def)


lemma run_present:
  assumes "db w (order_id order) = Some row" and "reliable w"
  shows "fst (executeMarketOrder cfg env order n w) = Inr ()
     \<and> db (snd (executeMarketOrder cfg env order n w)) (order_id order) \<noteq> None
     \<and> (\<exists>es. effects (snd (executeMarketOrder cfg env order n w)) = effects w @ es
          \<and> persist_then_publish es
          \<and> take 1 es = [Persisted (order_id order) ROUTING None]
          \<and> run_statuses (maxRetries cfg - n) (persisted_statuses (order_id order) es)
          \<and> (\<exists>st d u. last_two es = Some (Persisted (order_id order) st d, Published u)
                \<and> u_orderId u = order_id order \<and> u_status u = st
                \<and> (st = CONFIRMED
                     \<or> st = FAILED
                       \<and> (\<exists>err t. attempt_outcome (env (max n (maxRetries cfg))) order = Inl err
                             \<and> d = failure_update err
                             \<and> u = failure_event (order_id order) err t))))"
  using assms
proof (induction "maxRetries cfg - n" arbitrary: n w row rule: less_induct)
  case less
  let ?k = "order_id order"
  have present: "db w ?k = Some row" by (rule less.prems(1))
  have rel: "reliable w" by (rule less.prems(2))
  obtain r w1 where att: "executeMarketOrder_try cfg (env n) order w = (r, w1)"
    by fastforce
  have r: "r = attempt_outcome (env n) order"
    using try_outcome [OF present rel, of cfg "env n"] att by simp
  obtain row1 where row1: "db w1 ?k = Some row1"
    using try_db [OF present rel, of cfg "env n"] att by auto
  have rel1: "reliable w1"
    using try_reliable [OF present rel, of cfg "env n"] att by simp
  obtain es1 where es1: "effects w1 = effects w @ es1" "persist_then_publish es1"
      "take 1 es1 = [Persisted ?k ROUTING None]"
    and shape: "case attempt_outcome (env n) order of
          Inr u \<Rightarrow> persisted_statuses ?k es1 = complete_attempt
            \<and> (\<exists>d u. last_two es1 = Some (Persisted ?k CONFIRMED d, Published u)
                  \<and> u_orderId u = ?k \<and> u_status u = CONFIRMED)
        | Inl err \<Rightarrow> failed_attempt (persisted_statuses ?k es1)"
    using try_effects [OF present rel, of cfg "env n"] att by auto
  show ?case
  proof (cases r)
    case (Inr u)
    have run: "executeMarketOrder cfg env order n w = (Inr (), w1)"
      using att Inr by (simp add: run_success)
    have out: "attempt_outcome (env n) order = Inr u"
      using r Inr by simp
    obtain d v where
      st: "persisted_statuses ?k es1 = complete_attempt"
      and l2: "last_two es1 = Some (Persisted ?k CONFIRMED d, Published v)"
        "u_orderId v = ?k" "u_status v = CONFIRMED"
      using shape by (auto simp add: out)
    have "run_statuses (maxRetries cfg - n) (persisted_statuses ?k es1)"
      by (simp add: st run_statuses.complete)
    then show ?thesis
      using run row1 es1 l2 by auto
  next
    case (Inl err)
    have out: "attempt_outcome (env n) order = Inl err"
      using r Inl by simp
    have failed: "failed_attempt (persisted_statuses ?k es1)"
      using shape by (simp add: out)
    show ?thesis
    proof (cases "n < maxRetries cfg")
      case True
      let ?w3 = "w1\<lparr>db := (db w1)(?k \<mapsto> row1\<lparr>retryCount := retryCount row1 + 1, updatedAt := clock w1\<rparr>),
           io_count := io_count w1 + 1,
           effects := effects w1 @ [RetryIncremented ?k, Delayed (2 ^ n * 1000)],
           clock := clock w1 + 2 ^ n * 1000\<rparr>"
      have run: "executeMarketOrder cfg env order n w = executeMarketOrder cfg env order (n + 1) ?w3"
        using att Inl row1 rel1 True by (simp add: run_retry)
      have present3: "db ?w3 ?k = Some (row1\<lparr>retryCount := retryCount row1 + 1, updatedAt := clock w1\<rparr>)"
        by simp
      have rel3: "reliable ?w3"
        using rel1 by (simp add: reliable_def)
      have smaller: "maxRetries cfg - (n + 1) < maxRetries cfg - n"
        using True by simp
      have same_last: "max (n + 1) (maxRetries cfg) = max n (maxRetries cfg)"
        using True by simp
      from less.hyps [OF smaller present3 rel3]
      obtain es' st d u where
        ok: "fst (executeMarketOrder cfg env order (n + 1) ?w3) = Inr ()"
          "db (snd (executeMarketOrder cfg env order (n + 1) ?w3)) ?k \<noteq> None"
        and es': "effects (snd (executeMarketOrder cfg env order (n + 1) ?w3)) = effects ?w3 @ es'"
          "persist_then_publish es'"
          "run_statuses (maxRetries cfg - (n + 1)) (persisted_statuses ?k es')"
        and l2: "last_two es' = Some (Persisted ?k st d, Published u)"
          "u_orderId u = ?k" "u_status u = st"
          "st = CONFIRMED
             \<or> st = FAILED
               \<and> (\<exists>err t. attempt_outcome (env (max n (maxRetries cfg))) order = Inl err
                     \<and> d = failure_update err \<and> u = failure_event ?k err t)"
        unfolding same_last by blast
      let ?es = "es1 @ [RetryIncremented ?k, Delayed (2 ^ n * 1000)] @ es'"
      have a: "effects (snd (executeMarketOrder cfg env order n w)) = effects w @ ?es"
        using run es' es1 by simp
      have b: "persist_then_publish ?es"
        using es1(2) es'(2) by (simp add: persist_then_publish_append)
      have c: "take 1 ?es = [Persisted ?k ROUTING None]"
        using es1(3) by (cases es1) simp_all
      have "maxRetries cfg - n = Suc (maxRetries cfg - (n + 1))"
        using True by simp
      then have d: "run_statuses (maxRetries cfg - n) (persisted_statuses ?k ?es)"
        using failed es'(3) by (simp add: persisted_statuses_append run_statuses.retry)
      have e: "last_two ?es = Some (Persisted ?k st d, Published u)"
        using last_two_append [OF l2(1), of "es1 @ [RetryIncremented ?k, Delayed (2 ^ n * 1000)]"]
        by simp
      show ?thesis
        unfolding run using ok a [unfolded run] b c d e l2(2,3,4) by blast
    next
      case False
      let ?row2 = "apply_data (updateData FAILED
                (Some (no_data\<lparr>sd_failureReason := Some (error_message err)\<rparr>)) (clock w1)) row1"
      let ?fin = "[Persisted ?k FAILED (failure_update err),
             Published (failure_event ?k err (clock w1))]"
      let ?w2 = "w1\<lparr>db := (db w1)(?k \<mapsto> ?row2),
          cache := (cache w1)(''order:'' @ order_id ?row2 \<mapsto> ?row2),
          io_count := io_count w1 + 2,
          effects := effects w1 @ ?fin\<rparr>"
      have run: "executeMarketOrder cfg env order n w = (Inr (), ?w2)"
        using att Inl row1 rel1 False by (simp add: run_exhausted)
      let ?es = "es1 @ ?fin"
      have a: "effects (snd (executeMarketOrder cfg env order n w)) = effects w @ ?es"
        using run es1 by simp
      have "persist_then_publish ?fin"
        by (simp add: failure_event_def)
      then have b: "persist_then_publish ?es"
        using es1(2) by (simp add: persist_then_publish_append)
      have c: "take 1 ?es = [Persisted ?k ROUTING None]"
        using es1(3) by (cases es1) simp_all
      have "maxRetries cfg - n = 0" using False by simp
      then have d: "run_statuses (maxRetries cfg - n) (persisted_statuses ?k ?es)"
        using failed by (simp add: persisted_statuses_append run_statuses.exhausted)
      have "last_two ?fin = Some (Persisted ?k FAILED (failure_update err),
                 Published (failure_event ?k err (clock w1)))"
        by simp
      then have e: "last_two ?es = Some (Persisted ?k FAILED (failure_update err),
                 Published (failure_event ?k err (clock w1)))"
        by (rule last_two_append)
      have last: "max n (maxRetries cfg) = n" using False by simp
      have f: "attempt_outcome (env (max n (maxRetries cfg))) order = Inl err"
        using out last by simp
      have g: "u_orderId (failure_event ?k err (clock w1)) = ?k"
        "u_status (failure_event ?k err (clock w1)) = FAILED"
        by (simp_all add: failure_event_def)
      show ?thesis
        using run a b c d e f g by auto
    qed
  qed
qed

lemmas run_eval = executeMarketOrder.simps executeMarketOrder_try_def andThen_def succeed_def
  persist_def updateOrderStatus_cases incrementRetryCount_step_def incrementRetryCount_def
  prisma_order_update_def
  emitStatusUpdate_def getQuotes_def buildTransaction_def submitTransaction_def delay_def Let_def
  selectBestDex_def mockOrder_fields apply_data_fields(10)
  mockWorld_def firstCacheWriteFails_def lastCacheWriteFails_def
  goodAttempt_def failedSubmission_def submissionFailsOnce_def
  mockRaydiumQuote_def mockMeteoraQuote_def default_config_def emptyWorld_def quoteFetchFails_def

lemma submissionFailsOnce_statuses:
  "persisted_statuses ''test-order-123''
     (effects (snd (executeMarketOrder default_config submissionFailsOnce mockOrder 0 mockWorld)))
   = [ROUTING, ROUTING, BUILDING, SUBMITTED, ROUTING, ROUTING, BUILDING, SUBMITTED, CONFIRMED]"
  by (simp add: run_eval)

lemma firstCacheWriteFails_run:
  "take 3 (effects (snd (executeMarketOrder default_config (\<lambda>n. goodAttempt) mockOrder 0
      firstCacheWriteFails)))
   = [Persisted ''test-order-123'' ROUTING None, RetryIncremented ''test-order-123'', Delayed 1000]
   \<and> persisted_statuses ''test-order-123''
       (effects (snd (executeMarketOrder default_config (\<lambda>n. goodAttempt) mockOrder 0
          firstCacheWriteFails)))
     = [ROUTING, ROUTING, ROUTING, BUILDING, SUBMITTED, CONFIRMED]
   \<and> published_statuses ''test-order-123''
       (effects (snd (executeMarketOrder default_config (\<lambda>n. goodAttempt) mockOrder 0
          firstCacheWriteFails)))
     = [ROUTING, ROUTING, BUILDING, SUBMITTED, CONFIRMED]"
  by (simp add: run_eval)

lemma lastCacheWriteFails_run:
  "fst (executeMarketOrder default_config (\<lambda>n. quoteFetchFails) mockOrder 0 lastCacheWriteFails)
     = Inl redis_error
   \<and> persisted_statuses ''test-order-123''
       (effects (snd (executeMarketOrder default_config (\<lambda>n. quoteFetchFails) mockOrder 0
          lastCacheWriteFails)))
     = [ROUTING, ROUTING, ROUTING, ROUTING, FAILED]
   \<and> published_statuses ''test-order-123''
       (effects (snd (executeMarketOrder default_config (\<lambda>n. quoteFetchFails) mockOrder 0
          lastCacheWriteFails)))
     = [ROUTING, ROUTING, ROUTING, ROUTING]
   \<and> map_option status
       (db (snd (executeMarketOrder default_config (\<lambda>n. quoteFetchFails) mockOrder 0
          lastCacheWriteFails)) ''test-order-123'')
     = Some FAILED"
  by (simp add: run_eval apply_data_fields updateData_fields set_column_def)

text \<open>
  When the cache rejects the write of the update to \<^verbatim>\<open>CONFIRMED\<close>, the row is stored as
  \<^verbatim>\<open>CONFIRMED\<close> already; \<^verbatim>\<open>updateOrderStatus\<close> rejects, the \<^verbatim>\<open>catch\<close> block retries, and the
  second attempt persists \<^verbatim>\<open>CONFIRMED\<close> again. Two terminal statuses are persisted and the
  first of them has no event: the properties below need a store that accepts every call.
\<close>

lemma confirmedCacheWriteFails_run:
  "db confirmedCacheWriteFails (order_id mockOrder) \<noteq> None
   \<and> fst (executeMarketOrder default_config (\<lambda>n. goodAttempt) mockOrder 0 confirmedCacheWriteFails)
       = Inr ()
   \<and> persisted_statuses ''test-order-123''
       (effects (snd (executeMarketOrder default_config (\<lambda>n. goodAttempt) mockOrder 0
          confirmedCacheWriteFails)))
     = [ROUTING, ROUTING, BUILDING, SUBMITTED, CONFIRMED,
        ROUTING, ROUTING, BUILDING, SUBMITTED, CONFIRMED]
   \<and> published_statuses ''test-order-123''
       (effects (snd (executeMarketOrder default_config (\<lambda>n. goodAttempt) mockOrder 0
          confirmedCacheWriteFails)))
     = [ROUTING, ROUTING, BUILDING, SUBMITTED,
        ROUTING, ROUTING, BUILDING, SUBMITTED, CONFIRMED]"
  by (simp add: run_eval confirmedCacheWriteFails_def)




text \<open>
  C8 as stated fails. The store holds the order's row and the cache rejects the first write
  of the run. The row has then been updated to \<^verbatim>\<open>ROUTING\<close>, \<^verbatim>\<open>updateOrderStatus\<close> rejects,
  and the \<^verbatim>\<open>catch\<close> block goes on with the increment of the retry counter and the delay:
  no event follows that update. The run persists \<^verbatim>\<open>ROUTING\<close> three times and publishes it
  twice.
\<close>

theorem unpublished_update_counterexample:
  "db firstCacheWriteFails ''test-order-123'' \<noteq> None
   \<and> take 3 (effects (snd (executeMarketOrder default_config (\<lambda>n. goodAttempt) mockOrder 0
        firstCacheWriteFails)))
     = [Persisted ''test-order-123'' ROUTING None, RetryIncremented ''test-order-123'', Delayed 1000]
   \<and> persisted_statuses ''test-order-123''
       (effects (snd (executeMarketOrder default_config (\<lambda>n. goodAttempt) mockOrder 0
          firstCacheWriteFails)))
     = [ROUTING, ROUTING, ROUTING, BUILDING, SUBMITTED, CONFIRMED]
   \<and> published_statuses ''test-order-123''
       (effects (snd (executeMarketOrder default_config (\<lambda>n. goodAttempt) mockOrder 0
          firstCacheWriteFails)))
     = [ROUTING, ROUTING, BUILDING, SUBMITTED, CONFIRMED]"
  using firstCacheWriteFails_run by (simp add: firstCacheWriteFails_def mockWorld_def)

text \<open>
  C8, as the code has it. For an order whose row the store holds, and a store that accepts
  every call, the effects of a run of \<^verbatim>\<open>executeMarketOrder\<close> begin with the update to
  \<^verbatim>\<open>ROUTING\<close>; each update is followed immediately by the event of the same order and
  status, before any other effect, and no event is published without its update directly
  before it. The statuses persisted are those of the run's attempts, the statuses published
  are the same statuses in the same order, and the run closes with the update to a terminal
  status and its event.
\<close>

theorem persist_before_publish:
  assumes "db w (order_id order) \<noteq> None" and "reliable w"
  shows "\<exists>es. effects (snd (executeMarketOrder cfg env order n w)) = effects w @ es
     \<and> persist_then_publish es
     \<and> take 1 es = [Persisted (order_id order) ROUTING None]
     \<and> run_statuses (maxRetries cfg - n) (persisted_statuses (order_id order) es)
     \<and> published_statuses (order_id order) es = persisted_statuses (order_id order) es
     \<and> (\<exists>st d u. last_two es = Some (Persisted (order_id order) st d, Published u)
           \<and> u_orderId u = order_id order \<and> u_status u = st \<and> is_terminal st)"
proof -
  from assms(1) obtain row where "db w (order_id order) = Some row" by auto
  from run_present [OF this assms(2), of cfg env n] obtain es st d u where
    es: "effects (snd (executeMarketOrder cfg env order n w)) = effects w @ es"
      "persist_then_publish es" "take 1 es = [Persisted (order_id order) ROUTING None]"
      "run_statuses (maxRetries cfg - n) (persisted_statuses (order_id order) es)"
    and closing: "last_two es = Some (Persisted (order_id order) st d, Published u)"
      "u_orderId u = order_id order" "u_status u = st"
    and final: "st = CONFIRMED \<or> st = FAILED"
    by blast
  have "is_terminal st"
    using final by (simp add: is_terminal_def)
  with closing have
    "\<exists>st d u. last_two es = Some (Persisted (order_id order) st d, Published u)
        \<and> u_orderId u = order_id order \<and> u_status u = st \<and> is_terminal st"
    by blast
  with es published_eq_persisted [OF es(2), of "order_id order"] show ?thesis by blast
qed

theorem persist_before_publish_witness:
  "db mockWorld (order_id mockOrder) \<noteq> None \<and> reliable mockWorld
   \<and> persist_then_publish
        (effects (snd (executeMarketOrder default_config submissionFailsOnce mockOrder 0 mockWorld)))
   \<and> published_statuses ''test-order-123''
        (effects (snd (executeMarketOrder default_config submissionFailsOnce mockOrder 0 mockWorld)))
      = [ROUTING, ROUTING, BUILDING, SUBMITTED, ROUTING, ROUTING, BUILDING, SUBMITTED, CONFIRMED]"
proof -
  have present: "db mockWorld (order_id mockOrder) \<noteq> None"
    by (simp add: mockWorld_fields mockOrder_fields)
  have rel: "reliable mockWorld"
    by (rule mockWorld_fields)
  show ?thesis
    using present rel
      persist_before_publish [OF present rel, of default_config submissionFailsOnce 0]
      submissionFailsOnce_statuses
    by (auto simp add: mockWorld_fields mockOrder_fields)
qed

text \<open>
  C3 as stated fails. The store holds the order's row, every quote fetch fails, and the
  cache rejects the write of the update to \<^verbatim>\<open>FAILED\<close>, once the retries are exhausted. The
  row is stored as \<^verbatim>\<open>FAILED\<close>, but \<^verbatim>\<open>updateOrderStatus\<close> rejects inside the \<^verbatim>\<open>catch\<close> block:
  no failure event is published, and the error of the cache leaves \<^verbatim>\<open>executeMarketOrder\<close>.
\<close>

theorem failed_update_unpublished_counterexample:
  "db lastCacheWriteFails (order_id mockOrder) \<noteq> None
   \<and> attempt_outcome quoteFetchFails mockOrder = Inl (Error (Msg ''Persistent network error''))
   \<and> fst (executeMarketOrder default_config (\<lambda>n. quoteFetchFails) mockOrder 0 lastCacheWriteFails)
       = Inl redis_error
   \<and> persisted_statuses ''test-order-123''
       (effects (snd (executeMarketOrder default_config (\<lambda>n. quoteFetchFails) mockOrder 0
          lastCacheWriteFails)))
     = [ROUTING, ROUTING, ROUTING, ROUTING, FAILED]
   \<and> published_statuses ''test-order-123''
       (effects (snd (executeMarketOrder default_config (\<lambda>n. quoteFetchFails) mockOrder 0
          lastCacheWriteFails)))
     = [ROUTING, ROUTING, ROUTING, ROUTING]
   \<and> map_option status
       (db (snd (executeMarketOrder default_config (\<lambda>n. quoteFetchFails) mockOrder 0
          lastCacheWriteFails)) ''test-order-123'')
     = Some FAILED"
  using lastCacheWriteFails_run
  by (simp add: lastCacheWriteFails_def mockWorld_def mockOrder_fields attempt_outcome_def
        quoteFetchFails_def goodAttempt_def)

text \<open>
  C3, as the code has it. Let the store accept every call, and let the attempt \<open>n\<close> of an
  order whose row the store holds raise the error \<open>err\<close>, whichever of the quote fetch, the
  slippage check and the submission raised it. If \<open>n\<close> is below \<^verbatim>\<open>maxRetries\<close> (3 by
  default), the retry counter of the row is incremented, \<open>2 ^ n * 1000\<close> milliseconds are
  waited, and the run continues as the attempt \<open>n + 1\<close> of the same order, whose first
  effect is the update to \<^verbatim>\<open>ROUTING\<close>. Otherwise the call returns normally after the update
  to \<^verbatim>\<open>FAILED\<close> with the text of \<open>err\<close> as failure reason and the event of \<^verbatim>\<open>FAILED\<close>
  carrying that text; the row then has the status \<^verbatim>\<open>FAILED\<close> and, when the text is not
  empty, the text as its failure reason. (An attempt on an order without a row fails at its
  first update, before any of the three stages.)
\<close>

theorem catch_retries_or_fails:
  assumes present: "db w (order_id order) \<noteq> None" and rel: "reliable w"
    and raised: "attempt_outcome (env n) order = Inl err"
  shows "\<exists>w1 row1. executeMarketOrder_try cfg (env n) order w = (Inl err, w1)
     \<and> db w1 (order_id order) = Some row1
     \<and> (if n < maxRetries cfg
        then executeMarketOrder cfg env order n w =
               executeMarketOrder cfg env order (n + 1)
                 (w1\<lparr>db := (db w1)(order_id order \<mapsto>
                         row1\<lparr>retryCount := retryCount row1 + 1, updatedAt := clock w1\<rparr>),
                     io_count := io_count w1 + 1,
                     effects := effects w1 @
                       [RetryIncremented (order_id order), Delayed (2 ^ n * 1000)],
                     clock := clock w1 + 2 ^ n * 1000\<rparr>)
          \<and> (\<exists>es. effects (snd (executeMarketOrder cfg env order n w)) =
                effects w1 @ [RetryIncremented (order_id order), Delayed (2 ^ n * 1000),
                              Persisted (order_id order) ROUTING None] @ es)
        else \<exists>w2 row2. executeMarketOrder cfg env order n w = (Inr (), w2)
          \<and> effects w2 = effects w1 @
                [Persisted (order_id order) FAILED (failure_update err),
                 Published (failure_event (order_id order) err (clock w1))]
          \<and> db w2 (order_id order) = Some row2
          \<and> status row2 = FAILED
          \<and> failureReason row2 =
               (if truthy_message (Some (error_message err)) then Some (error_message err)
                else failureReason row1)
          \<and> retryCount row2 = retryCount row1)
     \<and> maxRetries default_config = 3"
proof -
  let ?k = "order_id order"
  from present obtain row where row: "db w ?k = Some row" by auto
  obtain r w1 where att: "executeMarketOrder_try cfg (env n) order w = (r, w1)"
    by fastforce
  have r: "r = Inl err"
    using try_outcome [OF row rel, of cfg "env n"] att raised by simp
  obtain row1 where row1: "db w1 ?k = Some row1"
    using try_db [OF row rel, of cfg "env n"] att by auto
  have rel1: "reliable w1"
    using try_reliable [OF row rel, of cfg "env n"] att by simp
  show ?thesis
  proof (cases "n < maxRetries cfg")
    case True
    let ?w3 = "w1\<lparr>db := (db w1)(?k \<mapsto> row1\<lparr>retryCount := retryCount row1 + 1, updatedAt := clock w1\<rparr>),
           io_count := io_count w1 + 1,
           effects := effects w1 @ [RetryIncremented ?k, Delayed (2 ^ n * 1000)],
           clock := clock w1 + 2 ^ n * 1000\<rparr>"
    have run: "executeMarketOrder cfg env order n w = executeMarketOrder cfg env order (n + 1) ?w3"
      using att r row1 rel1 True by (simp add: run_retry)
    have p3: "db ?w3 ?k = Some (row1\<lparr>retryCount := retryCount row1 + 1, updatedAt := clock w1\<rparr>)"
      by simp
    have rel3: "reliable ?w3"
      using rel1 by (simp add: reliable_def)
    from run_present [OF p3 rel3, of cfg env "n + 1"] obtain es where
      es: "effects (snd (executeMarketOrder cfg env order (n + 1) ?w3)) = effects ?w3 @ es"
        "take 1 es = [Persisted ?k ROUTING None]"
      by blast
    from es(2) obtain es' where "es = Persisted ?k ROUTING None # es'"
      by (cases es) simp_all
    with es(1) run have
      "effects (snd (executeMarketOrder cfg env order n w)) =
         effects w1 @ [RetryIncremented ?k, Delayed (2 ^ n * 1000), Persisted ?k ROUTING None] @ es'"
      by simp
    with run att r row1 True show ?thesis by (auto simp add: default_config_def)
  next
    case False
    let ?row2 = "apply_data (updateData FAILED
                (Some (no_data\<lparr>sd_failureReason := Some (error_message err)\<rparr>)) (clock w1)) row1"
    have run: "executeMarketOrder cfg env order n w =
      (Inr (), w1\<lparr>db := (db w1)(?k \<mapsto> ?row2),
          cache := (cache w1)(''order:'' @ order_id ?row2 \<mapsto> ?row2),
          io_count := io_count w1 + 2,
          effects := effects w1 @
            [Persisted ?k FAILED (failure_update err), Published (failure_event ?k err (clock w1))]\<rparr>)"
      using att r row1 rel1 False by (simp add: run_exhausted)
    have fields: "status ?row2 = FAILED" "retryCount ?row2 = retryCount row1"
      "failureReason ?row2 =
         (if truthy_message (Some (error_message err)) then Some (error_message err)
          else failureReason row1)"
      by (simp_all add: apply_data_fields updateData_fields set_column_def set_nullable_def no_data_def)
    show ?thesis
      using att r row1 False run fields by (auto simp add: default_config_def)
  qed
qed

theorem catch_retries_or_fails_witness:
  "db mockWorld (order_id mockOrder) \<noteq> None \<and> reliable mockWorld
   \<and> attempt_outcome (submissionFailsOnce 0) mockOrder = Inl network_error
   \<and> (\<exists>w1. executeMarketOrder_try default_config (submissionFailsOnce 0) mockOrder mockWorld
              = (Inl network_error, w1)
        \<and> (\<exists>es. effects (snd (executeMarketOrder default_config submissionFailsOnce mockOrder 0 mockWorld)) =
                effects w1 @ [RetryIncremented ''test-order-123'', Delayed 1000,
                              Persisted ''test-order-123'' ROUTING None] @ es))"
proof -
  have present: "db mockWorld (order_id mockOrder) \<noteq> None"
    by (simp add: mockWorld_fields mockOrder_fields)
  have rel: "reliable mockWorld"
    by (rule mockWorld_fields)
  have raised: "attempt_outcome (submissionFailsOnce 0) mockOrder = Inl network_error"
    by (simp add: attempt_outcome_def submissionFailsOnce_def failedSubmission_def goodAttempt_def
          selectBestDex_def mockRaydiumQuote_def mockMeteoraQuote_def mockOrder_fields)
  show ?thesis
    using present rel raised
      catch_retries_or_fails [where w = mockWorld and order = mockOrder
        and env = submissionFailsOnce and n = 0 and err = network_error and cfg = default_config]
    by (auto simp add: default_config_def mockOrder_fields)
qed





section \<open>Properties of the status broadcaster\<close>

lemma removeAll_empty: "removeAll h cs = [] \<Longrightarrow> set cs \<subseteq> {h}"
  using set_removeAll [of h cs] by auto

lemma subscribers_unregister:
  "subscribers k (unregisterConnection k h s) = subscribers k s - {h}"
  by (auto simp add: subscribers_def unregisterConnection_def Let_def
        split: option.split dest: removeAll_empty)

lemma subscribers_unregister_other:
  "k' \<noteq> k \<Longrightarrow> connections (unregisterConnection k h s) k' = connections s k'"
  by (simp add: unregisterConnection_def Let_def split: option.split)

lemma unregister_frame:
  "sockets (unregisterConnection k h s) = sockets s"
  "timers (unregisterConnection k h s) = timers s"
  by (simp_all add: unregisterConnection_def Let_def split: option.split)

lemma broadcast_to_socket:
  "sockets (broadcast_to u h s) h' =
     (if h' = h \<and> readyState (sockets s h) = 1
      then (if send_throws (sockets s h)
            then (sockets s h)\<lparr>send_calls := send_calls (sockets s h) + 1\<rparr>
            else (sockets s h)\<lparr>sent := sent (sockets s h) @ [u],
                               send_calls := send_calls (sockets s h) + 1\<rparr>)
      else sockets s h')"
  by (simp add: broadcast_to_def socket_send_def Let_def unregister_frame)

lemma broadcast_to_subscribers:
  "subscribers (u_orderId u) (broadcast_to u h s) =
     (if fails s h then subscribers (u_orderId u) s - {h} else subscribers (u_orderId u) s)"
  by (simp add: broadcast_to_def socket_send_def Let_def fails_def subscribers_unregister)
     (simp add: subscribers_def)

lemma broadcast_to_timers: "timers (broadcast_to u h s) = timers s"
  by (simp add: broadcast_to_def socket_send_def Let_def unregister_frame)

lemma broadcast_to_fails: "fails (broadcast_to u h s) h' = fails s h'"
  by (simp add: fails_def broadcast_to_socket)

lemma fold_broadcast_timers: "timers (fold (broadcast_to u) cs s) = timers s"
  by (induction cs arbitrary: s) (simp_all add: broadcast_to_timers)

lemma fold_broadcast_fails: "fails (fold (broadcast_to u) cs s) h' = fails s h'"
  by (induction cs arbitrary: s) (simp_all add: broadcast_to_fails)

lemma fold_broadcast_subscribers:
  "subscribers (u_orderId u) (fold (broadcast_to u) cs s) =
     subscribers (u_orderId u) s - {h \<in> set cs. fails s h}"
  by (induction cs arbitrary: s)
     (auto simp add: broadcast_to_subscribers broadcast_to_fails)

lemma fold_broadcast_socket_other:
  "h \<notin> set cs \<Longrightarrow> sockets (fold (broadcast_to u) cs s) h = sockets s h"
  by (induction cs arbitrary: s) (simp_all add: broadcast_to_socket)

lemma fold_broadcast_socket:
  "distinct cs \<Longrightarrow> h \<in> set cs \<Longrightarrow>
   sockets (fold (broadcast_to u) cs s) h = sockets (broadcast_to u h s) h"
proof (induction cs arbitrary: s)
  case Nil
  then show ?case by simp
next
  case (Cons c cs)
  show ?case
  proof (cases "h = c")
    case True
    with Cons.prems have "h \<notin> set cs" by simp
    then show ?thesis using True by (simp add: fold_broadcast_socket_other)
  next
    case False
    with Cons.prems have "distinct cs" "h \<in> set cs" by simp_all
    from Cons.IH [OF this] False show ?thesis
      by (simp add: broadcast_to_socket)
  qed
qed

lemma close_one_socket:
  "sockets (close_one h s) h' =
     (if h' = h
      then (if close_throws (sockets s h)
            then (sockets s h)\<lparr>close_calls := close_calls (sockets s h) + 1\<rparr>
            else (sockets s h)\<lparr>readyState := 2, close_calls := close_calls (sockets s h) + 1\<rparr>)
      else sockets s h')"
  by (simp add: close_one_def socket_close_def Let_def)

lemma close_one_frame:
  "connections (close_one h s) = connections s" "timers (close_one h s) = timers s"
  by (simp_all add: close_one_def socket_close_def Let_def)

lemma fold_close_frame:
  "connections (fold close_one cs s) = connections s" "timers (fold close_one cs s) = timers s"
  by (induction cs arbitrary: s) (simp_all add: close_one_frame)

lemma fold_close_other:
  "h \<notin> set cs \<Longrightarrow> sockets (fold close_one cs s) h = sockets s h"
  by (induction cs arbitrary: s) (simp_all add: close_one_socket)

lemma fold_close_throws:
  "close_throws (sockets (fold close_one cs s) h) = close_throws (sockets s h)"
  by (induction cs arbitrary: s) (simp_all add: close_one_socket)

lemma fold_close_mono:
  "close_calls (sockets s h) \<le> close_calls (sockets (fold close_one cs s) h)"
proof (induction cs arbitrary: s)
  case Nil
  then show ?case by simp
next
  case (Cons c cs)
  have "close_calls (sockets s h) \<le> close_calls (sockets (close_one c s) h)"
    by (simp add: close_one_socket)
  also have "\<dots> \<le> close_calls (sockets (fold close_one cs (close_one c s)) h)"
    by (rule Cons.IH)
  finally show ?case by simp
qed

lemma fold_close_called:
  "h \<in> set cs \<Longrightarrow> close_calls (sockets s h) < close_calls (sockets (fold close_one cs s) h)"
proof (induction cs arbitrary: s)
  case Nil
  then show ?case by simp
next
  case (Cons c cs)
  show ?case
  proof (cases "h = c")
    case True
    have "close_calls (sockets s h) < close_calls (sockets (close_one c s) h)"
      using True by (simp add: close_one_socket)
    also have "\<dots> \<le> close_calls (sockets (fold close_one cs (close_one c s)) h)"
      by (rule fold_close_mono)
    finally show ?thesis by simp
  next
    case False
    with Cons.prems have "h \<in> set cs" by simp
    from Cons.IH [OF this, of "close_one c s"] False show ?thesis
      by (simp add: close_one_socket)
  qed
qed

lemma fold_close_closing:
  "h \<in> set cs \<Longrightarrow> \<not> close_throws (sockets s h) \<Longrightarrow>
   readyState (sockets (fold close_one cs s) h) = 2"
proof (induction cs arbitrary: s rule: rev_induct)
  case Nil
  then show ?case by simp
next
  case (snoc c cs)
  show ?case
  proof (cases "h = c")
    case True
    then show ?thesis
      using snoc.prems(2) by (simp add: close_one_socket fold_close_throws)
  next
    case False
    with snoc.prems have "h \<in> set cs" by simp
    from snoc.IH [OF this snoc.prems(2)] False show ?thesis
      by (simp add: close_one_socket)
  qed
qed

lemma broadcast_none:
  "subscriber_list (u_orderId u) s = [] \<Longrightarrow> broadcastStatusUpdate u s = (Inr (), s)"
  by (simp add: broadcastStatusUpdate_def subscriber_list_def split: option.splits)

lemma broadcast_some:
  "subscriber_list (u_orderId u) s \<noteq> [] \<Longrightarrow>
   broadcastStatusUpdate u s =
     (Inr (),
      if u_status u = CONFIRMED \<or> u_status u = FAILED
      then (fold (broadcast_to u) (subscriber_list (u_orderId u) s) s)
             \<lparr>timers := timers s @ [(5000, u_orderId u)]\<rparr>
      else fold (broadcast_to u) (subscriber_list (u_orderId u) s) s)"
  by (simp add: broadcastStatusUpdate_def subscriber_list_def Let_def fold_broadcast_timers
        split: option.splits)

lemma subscribers_list: "subscribers k s = set (subscriber_list k s)"
  by (simp add: subscribers_def subscriber_list_def split: option.split)

lemma subscribers_timers_update: "subscribers k (s\<lparr>timers := t\<rparr>) = subscribers k s"
  by (simp add: subscribers_def)

lemma broadcast_result: "fst (broadcastStatusUpdate u s) = Inr ()"
  by (cases "subscriber_list (u_orderId u) s = []") (simp_all add: broadcast_none broadcast_some)

lemma broadcast_subscribers:
  "subscribers (u_orderId u) (snd (broadcastStatusUpdate u s)) =
     subscribers (u_orderId u) s - {h. fails s h}"
proof (cases "subscriber_list (u_orderId u) s = []")
  case True
  then show ?thesis by (simp add: broadcast_none subscribers_list)
next
  case False
  let ?cs = "subscriber_list (u_orderId u) s"
  have "subscribers (u_orderId u) (snd (broadcastStatusUpdate u s)) =
      subscribers (u_orderId u) s - {h \<in> set ?cs. fails s h}"
    by (simp add: broadcast_some [OF False] subscribers_timers_update fold_broadcast_subscribers)
  also have "\<dots> = subscribers (u_orderId u) s - {h. fails s h}"
    by (auto simp add: subscribers_list)
  finally show ?thesis .
qed

lemma broadcast_sockets_in:
  assumes "distinct (subscriber_list (u_orderId u) s)" and "h \<in> subscribers (u_orderId u) s"
  shows "sockets (snd (broadcastStatusUpdate u s)) h = sockets (broadcast_to u h s) h"
proof -
  from assms(2) have ne: "subscriber_list (u_orderId u) s \<noteq> []"
    and mem: "h \<in> set (subscriber_list (u_orderId u) s)"
    by (auto simp add: subscribers_list)
  show ?thesis
    by (simp add: broadcast_some [OF ne] fold_broadcast_socket [OF assms(1) mem])
qed

lemma broadcast_sockets_out:
  assumes "h \<notin> subscribers (u_orderId u) s"
  shows "sockets (snd (broadcastStatusUpdate u s)) h = sockets s h"
proof (cases "subscriber_list (u_orderId u) s = []")
  case True
  then show ?thesis by (simp add: broadcast_none)
next
  case False
  from assms have "h \<notin> set (subscriber_list (u_orderId u) s)"
    by (simp add: subscribers_list)
  then show ?thesis
    by (simp add: broadcast_some [OF False] fold_broadcast_socket_other)
qed

lemma register_list:
  "subscriber_list k (registerConnection k h s) = set_add h (subscriber_list k s)"
  by (simp add: registerConnection_def subscriber_list_def Let_def split: option.split)

lemma register_frame:
  "sockets (registerConnection k h s) = sockets s" "timers (registerConnection k h s) = timers s"
  by (simp_all add: registerConnection_def Let_def split: option.split)

lemma distinct_set_add: "distinct cs \<Longrightarrow> distinct (set_add h cs)"
  by (simp add: set_add_def)

text \<open>
  C6, as the code has it. \<^verbatim>\<open>broadcastStatusUpdate\<close> always returns normally. When the
  order has no subscriber (no set, or an empty one) it changes nothing. Otherwise it calls
  \<^verbatim>\<open>send\<close> on every subscriber whose socket is open (\<^verbatim>\<open>readyState\<close> 1) and on no other: an
  open subscriber whose \<^verbatim>\<open>send\<close> does not throw has the update appended to what it
  received, whatever the other subscribers do; a subscriber whose \<^verbatim>\<open>send\<close> throws is removed
  from the set; a subscriber that is not open is left untouched and stays in the set. No
  other socket is touched. Two distinct open sockets that subscribe to an order without
  subscribers both receive the update published next.
\<close>

theorem broadcast_reaches_open_subscribers:
  assumes "distinct (subscriber_list (u_orderId u) s)"
  shows "fst (broadcastStatusUpdate u s) = Inr ()
     \<and> (if subscriber_list (u_orderId u) s = [] then snd (broadcastStatusUpdate u s) = s else True)
     \<and> subscribers (u_orderId u) (snd (broadcastStatusUpdate u s))
         = subscribers (u_orderId u) s - {h. fails s h}
     \<and> (\<forall>h \<in> subscribers (u_orderId u) s.
           sockets (snd (broadcastStatusUpdate u s)) h =
             (if readyState (sockets s h) = 1
              then (if send_throws (sockets s h)
                    then (sockets s h)\<lparr>send_calls := send_calls (sockets s h) + 1\<rparr>
                    else (sockets s h)\<lparr>sent := sent (sockets s h) @ [u],
                                       send_calls := send_calls (sockets s h) + 1\<rparr>)
              else sockets s h))
     \<and> (\<forall>h. h \<notin> subscribers (u_orderId u) s \<longrightarrow>
           sockets (snd (broadcastStatusUpdate u s)) h = sockets s h)
     \<and> (\<forall>h1 h2. subscriber_list (u_orderId u) s = [] \<and> h1 \<noteq> h2
             \<and> delivers s h1 \<and> delivers s h2 \<longrightarrow>
           sent (sockets (snd (broadcastStatusUpdate u
                   (registerConnection (u_orderId u) h2
                     (registerConnection (u_orderId u) h1 s)))) h1) = sent (sockets s h1) @ [u]
         \<and> sent (sockets (snd (broadcastStatusUpdate u
                   (registerConnection (u_orderId u) h2
                     (registerConnection (u_orderId u) h1 s)))) h2) = sent (sockets s h2) @ [u])"
proof -
  have a: "if subscriber_list (u_orderId u) s = [] then snd (broadcastStatusUpdate u s) = s else True"
    by (simp add: broadcast_none)
  have b: "\<forall>h \<in> subscribers (u_orderId u) s.
           sockets (snd (broadcastStatusUpdate u s)) h =
             (if readyState (sockets s h) = 1
              then (if send_throws (sockets s h)
                    then (sockets s h)\<lparr>send_calls := send_calls (sockets s h) + 1\<rparr>
                    else (sockets s h)\<lparr>sent := sent (sockets s h) @ [u],
                                       send_calls := send_calls (sockets s h) + 1\<rparr>)
              else sockets s h)"
    using assms by (simp add: broadcast_sockets_in broadcast_to_socket)
  have c: "\<forall>h. h \<notin> subscribers (u_orderId u) s \<longrightarrow>
           sockets (snd (broadcastStatusUpdate u s)) h = sockets s h"
    by (simp add: broadcast_sockets_out)
  have d: "sent (sockets (snd (broadcastStatusUpdate u
                   (registerConnection (u_orderId u) h2
                     (registerConnection (u_orderId u) h1 s)))) h1) = sent (sockets s h1) @ [u]
         \<and> sent (sockets (snd (broadcastStatusUpdate u
                   (registerConnection (u_orderId u) h2
                     (registerConnection (u_orderId u) h1 s)))) h2) = sent (sockets s h2) @ [u]"
    if two: "subscriber_list (u_orderId u) s = []" "h1 \<noteq> h2" "delivers s h1" "delivers s h2"
    for h1 h2
  proof -
    let ?s2 = "registerConnection (u_orderId u) h2 (registerConnection (u_orderId u) h1 s)"
    have l: "subscriber_list (u_orderId u) ?s2 = [h1, h2]"
      using two by (simp add: register_list set_add_def)
    have dist: "distinct (subscriber_list (u_orderId u) ?s2)"
      using two by (simp add: l)
    have socks: "sockets ?s2 = sockets s"
      by (simp add: register_frame)
    have "sockets (snd (broadcastStatusUpdate u ?s2)) h1 = sockets (broadcast_to u h1 ?s2) h1"
      "sockets (snd (broadcastStatusUpdate u ?s2)) h2 = sockets (broadcast_to u h2 ?s2) h2"
      using dist by (simp_all add: broadcast_sockets_in subscribers_list l)
    then show ?thesis
      using two by (simp add: broadcast_to_socket socks delivers_def)
  qed
  show ?thesis
    using a b c d broadcast_result [of u s] broadcast_subscribers [of u s] by blast
qed

lemma threeSubscribers_list: "subscriber_list ''test-order-123'' threeSubscribers = [1, 2, 3]"
  by (simp add: threeSubscribers_def register_list set_add_def)
     (simp add: subscriber_list_def newService_def)

lemma threeSubscribers_sockets:
  "sockets threeSubscribers =
     (\<lambda>h. if h = 2 then failingSocket else if h = 3 then closingSocket else openSocket)"
  by (simp add: threeSubscribers_def register_frame newService_def)

lemma update_fields:
  "u_orderId routingUpdate = ''test-order-123''" "u_status routingUpdate = ROUTING"
  "u_orderId confirmedUpdate = ''test-order-123''" "u_status confirmedUpdate = CONFIRMED"
  by (simp_all add: routingUpdate_def confirmedUpdate_def)

text \<open>
  The theorem at the service with the open socket 1, the throwing socket 2 and the closing
  socket 3 subscribed: 1 receives the update, 2 is called once and removed, 3 stays.
\<close>

theorem broadcast_reaches_open_subscribers_witness:
  "distinct (subscriber_list (u_orderId routingUpdate) threeSubscribers)
   \<and> subscribers ''test-order-123'' (snd (broadcastStatusUpdate routingUpdate threeSubscribers)) = {1, 3}
   \<and> sent (sockets (snd (broadcastStatusUpdate routingUpdate threeSubscribers)) 1) = [routingUpdate]
   \<and> send_calls (sockets (snd (broadcastStatusUpdate routingUpdate threeSubscribers)) 2) = 1
   \<and> sent (sockets (snd (broadcastStatusUpdate routingUpdate threeSubscribers)) 2) = []"
proof -
  have dist: "distinct (subscriber_list (u_orderId routingUpdate) threeSubscribers)"
    by (simp add: update_fields threeSubscribers_list)
  have subs: "subscribers ''test-order-123'' threeSubscribers = {1, 2, 3}"
    by (simp add: subscribers_list threeSubscribers_list)
  have f: "{h. fails threeSubscribers h} = {2}"
    by (auto simp add: fails_def threeSubscribers_sockets failingSocket_def closingSocket_def
          openSocket_def)
  from broadcast_reaches_open_subscribers [OF dist] dist show ?thesis
    by (auto simp add: update_fields subs f threeSubscribers_sockets failingSocket_def
          closingSocket_def openSocket_def)
qed

text \<open>
  C6 as stated fails: delivery is not attempted to every subscriber in the set. Socket 3 is
  subscribed and closing (\<^verbatim>\<open>readyState\<close> 2); the broadcast never calls its \<^verbatim>\<open>send\<close>, and
  it stays subscribed.
\<close>

theorem closing_subscriber_skipped_counterexample:
  "3 \<in> subscribers (u_orderId routingUpdate) threeSubscribers
   \<and> send_calls (sockets threeSubscribers 3) = 0
   \<and> send_calls (sockets (snd (broadcastStatusUpdate routingUpdate threeSubscribers)) 3) = 0
   \<and> sent (sockets (snd (broadcastStatusUpdate routingUpdate threeSubscribers)) 3) = []
   \<and> 3 \<in> subscribers (u_orderId routingUpdate) (snd (broadcastStatusUpdate routingUpdate threeSubscribers))"
proof -
  have dist: "distinct (subscriber_list (u_orderId routingUpdate) threeSubscribers)"
    by (simp add: update_fields threeSubscribers_list)
  have subs: "subscribers ''test-order-123'' threeSubscribers = {1, 2, 3}"
    by (simp add: subscribers_list threeSubscribers_list)
  have mem: "3 \<in> subscribers (u_orderId routingUpdate) threeSubscribers"
    by (simp add: update_fields subs)
  have "sockets (snd (broadcastStatusUpdate routingUpdate threeSubscribers)) 3 = closingSocket"
    by (simp add: broadcast_sockets_in [OF dist mem] broadcast_to_socket threeSubscribers_sockets
          closingSocket_def openSocket_def)
  moreover have "\<not> fails threeSubscribers 3"
    by (simp add: fails_def threeSubscribers_sockets closingSocket_def openSocket_def)
  ultimately show ?thesis
    using mem
    by (simp add: broadcast_subscribers threeSubscribers_sockets closingSocket_def openSocket_def)
qed

lemma close_order_connections:
  "connections (closeOrderConnections k s) k = None"
  by (simp add: closeOrderConnections_def Let_def fold_close_frame split: option.split)

lemma close_order_sockets:
  "sockets (closeOrderConnections k s) = sockets (fold close_one (subscriber_list k s) s)"
  by (simp add: closeOrderConnections_def Let_def subscriber_list_def split: option.split)

lemma broadcast_timers:
  "timers (snd (broadcastStatusUpdate u s)) =
     (if subscriber_list (u_orderId u) s \<noteq> [] \<and> (u_status u = CONFIRMED \<or> u_status u = FAILED)
      then timers s @ [(5000, u_orderId u)] else timers s)"
  by (cases "subscriber_list (u_orderId u) s = []")
     (simp_all add: broadcast_none broadcast_some fold_broadcast_timers)

text \<open>
  C7. Let the status of a published update be terminal. When the order has subscribers, the
  broadcast schedules one timer of 5000 milliseconds for the order (and none when it has no
  subscriber, in which case its connection count is already 0). When that timer fires,
  \<^verbatim>\<open>close\<close> is called on every subscriber that remained after the broadcast (a socket whose
  \<^verbatim>\<open>close\<close> does not throw is then closing), the order's set is deleted from the map, and
  the connection count of the order is 0.
\<close>

theorem terminal_update_closes_connections:
  assumes "is_terminal (u_status u)"
  shows "timers (snd (broadcastStatusUpdate u s)) =
       (if subscriber_list (u_orderId u) s = [] then timers s
        else timers s @ [(5000, u_orderId u)])
     \<and> (if subscriber_list (u_orderId u) s = []
        then getOrderConnections (u_orderId u) (snd (broadcastStatusUpdate u s)) = 0 else True)
     \<and> connections (fire (5000, u_orderId u) (snd (broadcastStatusUpdate u s))) (u_orderId u) = None
     \<and> getOrderConnections (u_orderId u)
          (fire (5000, u_orderId u) (snd (broadcastStatusUpdate u s))) = 0
     \<and> (\<forall>h \<in> subscribers (u_orderId u) (snd (broadcastStatusUpdate u s)).
           close_calls (sockets (snd (broadcastStatusUpdate u s)) h)
             < close_calls (sockets (fire (5000, u_orderId u) (snd (broadcastStatusUpdate u s))) h)
         \<and> (if close_throws (sockets (snd (broadcastStatusUpdate u s)) h) then True
            else readyState (sockets (fire (5000, u_orderId u) (snd (broadcastStatusUpdate u s))) h) = 2))"
proof -
  let ?k = "u_orderId u"
  let ?s1 = "snd (broadcastStatusUpdate u s)"
  have final: "u_status u = CONFIRMED \<or> u_status u = FAILED"
    using assms by (simp add: is_terminal_def)
  have a: "timers ?s1 = (if subscriber_list ?k s = [] then timers s else timers s @ [(5000, ?k)])"
    using final by (auto simp add: broadcast_timers)
  have b: "if subscriber_list ?k s = [] then getOrderConnections ?k ?s1 = 0 else True"
    by (simp add: broadcast_none getOrderConnections_def subscriber_list_def split: option.splits)
  have c: "connections (fire (5000, ?k) ?s1) ?k = None"
    by (simp add: fire_def close_order_connections)
  then have d: "getOrderConnections ?k (fire (5000, ?k) ?s1) = 0"
    by (simp add: getOrderConnections_def)
  have e: "\<forall>h \<in> subscribers ?k ?s1.
           close_calls (sockets ?s1 h) < close_calls (sockets (fire (5000, ?k) ?s1) h)
         \<and> (if close_throws (sockets ?s1 h) then True
            else readyState (sockets (fire (5000, ?k) ?s1) h) = 2)"
    by (simp add: fire_def close_order_sockets subscribers_list fold_close_called fold_close_closing)
  show ?thesis
    using a b c d e by blast
qed

lemma confirmed_terminal: "is_terminal (u_status confirmedUpdate)"
  by (simp add: is_terminal_def update_fields)

text \<open>
  The theorem at the three subscribers of the tests and the update to \<^verbatim>\<open>CONFIRMED\<close>:
  sockets 1 and 3 remain and are closed when the timer fires.
\<close>

theorem terminal_update_closes_connections_witness:
  "is_terminal (u_status confirmedUpdate)
   \<and> timers (snd (broadcastStatusUpdate confirmedUpdate threeSubscribers)) = [(5000, ''test-order-123'')]
   \<and> subscribers ''test-order-123'' (snd (broadcastStatusUpdate confirmedUpdate threeSubscribers)) = {1, 3}
   \<and> getOrderConnections ''test-order-123''
        (fire (5000, ''test-order-123'') (snd (broadcastStatusUpdate confirmedUpdate threeSubscribers))) = 0
   \<and> 0 < close_calls (sockets
        (fire (5000, ''test-order-123'') (snd (broadcastStatusUpdate confirmedUpdate threeSubscribers))) 1)
   \<and> 0 < close_calls (sockets
        (fire (5000, ''test-order-123'') (snd (broadcastStatusUpdate confirmedUpdate threeSubscribers))) 3)"
proof -
  have subs: "subscribers ''test-order-123'' threeSubscribers = {1, 2, 3}"
    by (simp add: subscribers_list threeSubscribers_list)
  have f: "{h. fails threeSubscribers h} = {2}"
    by (auto simp add: fails_def threeSubscribers_sockets failingSocket_def closingSocket_def
          openSocket_def)
  have after: "subscribers ''test-order-123'' (snd (broadcastStatusUpdate confirmedUpdate threeSubscribers))
      = {1, 3}"
  proof -
    have "subscribers ''test-order-123'' (snd (broadcastStatusUpdate confirmedUpdate threeSubscribers))
        = {1, 2, 3} - {2::nat}"
      using broadcast_subscribers [of confirmedUpdate threeSubscribers]
      by (simp only: update_fields subs f)
    also have "\<dots> = {1, 3}" by auto
    finally show ?thesis .
  qed
  have tm: "timers threeSubscribers = []"
    by (simp add: threeSubscribers_def register_frame newService_def)
  have inst: "timers (snd (broadcastStatusUpdate confirmedUpdate threeSubscribers)) =
       (if [1, 2, 3::nat] = [] then [] else [] @ [(5000, ''test-order-123'')])
     \<and> getOrderConnections ''test-order-123''
          (fire (5000, ''test-order-123'') (snd (broadcastStatusUpdate confirmedUpdate threeSubscribers))) = 0
     \<and> (\<forall>h \<in> {1, 3}.
           close_calls (sockets (snd (broadcastStatusUpdate confirmedUpdate threeSubscribers)) h)
             < close_calls (sockets (fire (5000, ''test-order-123'')
                 (snd (broadcastStatusUpdate confirmedUpdate threeSubscribers))) h))"
    using terminal_update_closes_connections [OF confirmed_terminal, of threeSubscribers]
    unfolding update_fields after threeSubscribers_list tm by blast
  have pos: "0 < n" if "m < n" for m n :: nat
    using that by simp
  show ?thesis
    using confirmed_terminal after inst by (auto intro: pos)
qed

section \<open>Properties of admission\<close>

text \<open>
  C9. \<^verbatim>\<open>addOrder\<close> adds the job under the order's identifier as job key: when the queue
  holds no job of that key, exactly one job of that key is in the queue afterwards, with
  the order as data and the priority of \<^verbatim>\<open>getOrderPriority\<close>; when it holds one, the queue
  is unchanged. So admitting an order twice leaves the queue as admitting it once. The
  priority is 1 for the type \<^verbatim>\<open>MARKET\<close>, 2 for \<^verbatim>\<open>LIMIT\<close>, 3 for \<^verbatim>\<open>SNIPER\<close> and 5 for
  every other text.
\<close>

theorem addOrder_idempotent:
  "fst (addOrder order (fst (addOrder order q))) = fst (addOrder order q)
   \<and> fst (addOrder order q) =
       (if order_id order \<in> set (map job_id q) then q
        else q @ [\<lparr>job_name = ''execute-order'', job_data = order, job_id = order_id order,
                   job_priority = getOrderPriority order\<rparr>])
   \<and> (if order_id order \<in> set (map job_id q) then True
      else length (filter (\<lambda>j. job_id j = order_id order)
             (fst (addOrder order (fst (addOrder order q))))) = 1)
   \<and> getOrderPriority order =
       (if order_type order = ''MARKET'' then 1
        else if order_type order = ''LIMIT'' then 2
        else if order_type order = ''SNIPER'' then 3 else 5)
   \<and> getOrderPriority (order\<lparr>order_type := ''MARKET''\<rparr>) = 1
   \<and> getOrderPriority (order\<lparr>order_type := ''LIMIT''\<rparr>) = 2
   \<and> getOrderPriority (order\<lparr>order_type := ''SNIPER''\<rparr>) = 3
   \<and> getOrderPriority (order\<lparr>order_type := ''STOP''\<rparr>) = 5"
proof -
  have once: "fst (addOrder order q) =
       (if order_id order \<in> set (map job_id q) then q
        else q @ [\<lparr>job_name = ''execute-order'', job_data = order, job_id = order_id order,
                   job_priority = getOrderPriority order\<rparr>])"
    by (simp add: addOrder_def queue_add_def)
  have held: "order_id order \<in> set (map job_id (fst (addOrder order q)))"
    by (simp add: once)
  have twice: "fst (addOrder order (fst (addOrder order q))) = fst (addOrder order q)"
    using held by (simp add: addOrder_def queue_add_def)
  have absent: "filter (\<lambda>j. job_id j = order_id order) q = []"
    if "order_id order \<notin> set (map job_id q)"
    using that by (induction q) auto
  have count: "if order_id order \<in> set (map job_id q) then True
      else length (filter (\<lambda>j. job_id j = order_id order)
             (fst (addOrder order (fst (addOrder order q))))) = 1"
  proof (cases "order_id order \<in> set (map job_id q)")
    case True
    then show ?thesis by simp
  next
    case False
    have "fst (addOrder order (fst (addOrder order q))) =
        q @ [\<lparr>job_name = ''execute-order'', job_data = order, job_id = order_id order,
                   job_priority = getOrderPriority order\<rparr>]"
      unfolding twice using False by (simp add: once)
    then show ?thesis
      using False by (simp add: absent [OF False])
  qed
  have priority: "getOrderPriority order =
       (if order_type order = ''MARKET'' then 1
        else if order_type order = ''LIMIT'' then 2
        else if order_type order = ''SNIPER'' then 3 else 5)"
    by (simp add: getOrderPriority_def)
  have kinds: "getOrderPriority (order\<lparr>order_type := ''MARKET''\<rparr>) = 1"
    "getOrderPriority (order\<lparr>order_type := ''LIMIT''\<rparr>) = 2"
    "getOrderPriority (order\<lparr>order_type := ''SNIPER''\<rparr>) = 3"
    "getOrderPriority (order\<lparr>order_type := ''STOP''\<rparr>) = 5"
    by (simp_all add: getOrderPriority_def)
  show ?thesis
    using once twice count priority kinds by blast
qed

end
